theory Spec2Isabelle
  imports Main
begin

section \<open>JavaScript values used by the gateway\<close>

text \<open>
  A string is the UTF-8 encoding of the JavaScript string (\<^typ>\<open>string\<close>, a list of bytes).

  \<open>toLowerCase\<close> changes the letters \<open>A\<close>..\<open>Z\<close> and leaves every other byte as it is.  The
  source also changes letters outside ASCII, into code points outside ASCII; the two
  exceptions are the Kelvin sign, which becomes \<open>k\<close>, and U+0130, which becomes \<open>i\<close>
  followed by U+0307.  The words that \<open>isReadyStatus\<close> compares the result with are ASCII
  and have no \<open>k\<close>, so the comparison comes out as in the source.
\<close>

definition toLowerCaseChar :: "char \<Rightarrow> char" where
  "toLowerCaseChar c =
     (let n = (of_char c :: nat) in if 65 \<le> n \<and> n \<le> 90 then char_of (n + 32) else c)"

definition toLowerCase :: "string \<Rightarrow> string" where
  "toLowerCase s = map toLowerCaseChar s"

text \<open>
  \<open>trim\<close> removes the white space and line terminator code points of ECMAScript from both
  ends: TAB, LF, VT, FF, CR, SPACE, U+00A0, U+1680, U+2000 to U+200A, U+2028, U+2029,
  U+202F, U+205F, U+3000 and U+FEFF, here in UTF-8.  \<open>lead ws s\<close> is the length of the
  member of \<open>ws\<close> that \<open>s\<close> starts with, 0 when there is none, and \<open>strip\<close> removes such
  members from the front as long as there is one.
\<close>

definition WHITE_SPACE :: "string list" where
  "WHITE_SPACE =
     [[CHR 0x09], [CHR 0x0A], [CHR 0x0B], [CHR 0x0C], [CHR 0x0D], [CHR 0x20],
      [CHR 0xC2, CHR 0xA0], [CHR 0xE1, CHR 0x9A, CHR 0x80],
      [CHR 0xE2, CHR 0x80, CHR 0x80], [CHR 0xE2, CHR 0x80, CHR 0x81],
      [CHR 0xE2, CHR 0x80, CHR 0x82], [CHR 0xE2, CHR 0x80, CHR 0x83],
      [CHR 0xE2, CHR 0x80, CHR 0x84], [CHR 0xE2, CHR 0x80, CHR 0x85],
      [CHR 0xE2, CHR 0x80, CHR 0x86], [CHR 0xE2, CHR 0x80, CHR 0x87],
      [CHR 0xE2, CHR 0x80, CHR 0x88], [CHR 0xE2, CHR 0x80, CHR 0x89],
      [CHR 0xE2, CHR 0x80, CHR 0x8A], [CHR 0xE2, CHR 0x80, CHR 0xA8],
      [CHR 0xE2, CHR 0x80, CHR 0xA9], [CHR 0xE2, CHR 0x80, CHR 0xAF],
      [CHR 0xE2, CHR 0x81, CHR 0x9F], [CHR 0xE3, CHR 0x80, CHR 0x80],
      [CHR 0xEF, CHR 0xBB, CHR 0xBF]]"

definition lead :: "string list \<Rightarrow> string \<Rightarrow> nat" where
  "lead ws s =
     (case find (\<lambda>w. take (length w) s = w) ws of None \<Rightarrow> 0 | Some w \<Rightarrow> length w)"

function strip :: "string list \<Rightarrow> string \<Rightarrow> string" where
  "strip ws s = (if lead ws s = 0 then s else strip ws (drop (lead ws s) s))"
  by pat_completeness auto
termination
proof (relation "measure (\<lambda>(ws, s). length s)")
  show "wf (measure (\<lambda>(ws, s). length s))"
    by simp
next
  fix ws :: "string list" and s :: string
  assume pos: "lead ws s \<noteq> 0"
  have "lead ws s \<le> length s"
  proof (cases "find (\<lambda>w. take (length w) s = w) ws")
    case None
    then show ?thesis
      by (simp add: lead_def)
  next
    case (Some w)
    then have "take (length w) s = w"
      by (auto simp: find_Some_iff)
    then have "length (take (length w) s) = length w"
      by simp
    then have "length w \<le> length s"
      by simp
    with Some show ?thesis
      by (simp add: lead_def)
  qed
  with pos show "((ws, drop (lead ws s) s), (ws, s)) \<in> measure (\<lambda>(ws, s). length s)"
    by simp
qed

declare strip.simps [simp del]

definition trimStart :: "string \<Rightarrow> string" where
  "trimStart s = strip WHITE_SPACE s"

definition trimEnd :: "string \<Rightarrow> string" where
  "trimEnd s = rev (strip (map rev WHITE_SPACE) (rev s))"

definition trim :: "string \<Rightarrow> string" where
  "trim s = trimEnd (trimStart s)"

text \<open>The operator \<open>a ?? b\<close>: \<open>None\<close> stands for both \<open>null\<close> and \<open>undefined\<close>.\<close>

definition coalesce :: "'a option \<Rightarrow> 'a \<Rightarrow> 'a" where
  "coalesce a b = (case a of None \<Rightarrow> b | Some v \<Rightarrow> v)"

definition coalesce_opt :: "'a option \<Rightarrow> 'a option \<Rightarrow> 'a option" where
  "coalesce_opt a b = (case a of None \<Rightarrow> b | Some v \<Rightarrow> Some v)"


section \<open>Status classifier\<close>

text \<open>
  \<open>isReadyStatus\<close> of the gateway (the variant with \<open>images_pending\<close>).  \<open>!status\<close> holds
  for an absent status and for the empty string.
\<close>

definition isReadyStatus :: "string option \<Rightarrow> bool" where
  "isReadyStatus status =
     (case status of
        None \<Rightarrow> False
      | Some st \<Rightarrow>
          if st = [] then False
          else (let s = trim (toLowerCase st)
                in s \<in> set [''ready'', ''completed'', ''done'', ''complete'', ''finished'',
                             ''images_pending'']))"

text \<open>The earlier variant of the same function, in \<open>src/services/api.ts\<close>.\<close>

definition isReadyStatus_v1 :: "string option \<Rightarrow> bool" where
  "isReadyStatus_v1 status =
     (case status of
        None \<Rightarrow> False
      | Some st \<Rightarrow>
          if st = [] then False
          else (let s = trim (toLowerCase st)
                in s \<in> set [''ready'', ''completed'', ''done'', ''complete'', ''finished'']))"

text \<open>
  The words of the specification, for comparison with \<open>isReadyStatus\<close>: \<open>w\<close> is \<open>syn\<close> up to
  the case of its ASCII letters when the two have the same length and each byte of \<open>w\<close> is
  the byte of \<open>syn\<close> at its place or the capital letter that \<open>syn\<close> has in lower case there.
\<close>

definition equal_ignoring_case :: "string \<Rightarrow> string \<Rightarrow> bool" where
  "equal_ignoring_case w syn =
     list_all2
       (\<lambda>a b. a = b \<or>
          (65 \<le> (of_char a :: nat) \<and> (of_char a :: nat) \<le> 90 \<and> (of_char b :: nat) = of_char a + 32))
       w syn"

text \<open>
  Backend topic record (\<open>BackendTopicItem\<close>); the field \<open>item.x\<close> of the source is
  \<open>item_x item\<close>.  \<open>title\<close> is read with \<open>??\<close> in the source, so it is optional here.
\<close>

record BackendTopicItem =
  item_node_id :: string
  item_title :: "string option"
  item_icon :: "string option"
  item_status :: "string option"
  item_card_count :: "int option"
  item_learnt_count :: "int option"
  item_created_at :: "string option"

text \<open>
  \<open>isStuckGenerating\<close>.  \<open>new Date(s).getTime()\<close> is the parameter \<open>dateParse\<close>, with
  \<open>None\<close> for \<open>NaN\<close> (an unparseable date); \<open>Date.now()\<close> is the parameter \<open>now\<close>.  Every
  comparison with \<open>NaN\<close> is false.
\<close>

definition isStuckGenerating :: "(string \<Rightarrow> int option) \<Rightarrow> int \<Rightarrow> BackendTopicItem \<Rightarrow> bool" where
  "isStuckGenerating dateParse now item =
     (if isReadyStatus (item_status item) then False
      else if coalesce (item_card_count item) 0 > 0 then False
      else case item_created_at item of
             None \<Rightarrow> False
           | Some c \<Rightarrow>
               if c = [] then False
               else (case dateParse c of
                       None \<Rightarrow> False
                     | Some createdMs \<Rightarrow>
                         (let ageMs = now - createdMs in ageMs > 10 * 60 * 1000)))"


section \<open>Payload normalizer\<close>

text \<open>
  \<open>String(n)\<close> for an integer \<open>n\<close> (decimal digits, a leading minus sign for a negative
  number) and \<open>Array.prototype.join\<close> on an array of strings.
\<close>

function decimal :: "nat \<Rightarrow> string" where
  "decimal n =
     (if n < 10 then [char_of (48 + n)] else decimal (n div 10) @ [char_of (48 + n mod 10)])"
  by pat_completeness auto
termination
  by (relation "measure id") auto

declare decimal.simps [simp del]

definition String_num :: "int \<Rightarrow> string" where
  "String_num i = (if i < 0 then CHR ''-'' # decimal (nat (- i)) else decimal (nat i))"

fun join :: "string \<Rightarrow> string list \<Rightarrow> string" where
  "join sep [] = []"
| "join sep [x] = x"
| "join sep (x # y # ys) = x @ sep @ join sep (y # ys)"

text \<open>The internal card model (\<open>Card\<close> and its three variants).\<close>

datatype QuizOption = QuizOption (option_id: string) (option_text: string)

datatype Card =
    ImageCardData (card_id: string) (imageUrl: string) (caption: string) (hook: string)
      (credit: "string option")
  | QuizCardData (card_id: string) (question: string) (options: "QuizOption list")
      (correctOptionId: string) (explanation: string)
  | FlashCardData (card_id: string) (front: string) (back_text: string) (hint: "string option")

text \<open>
  Backend card record (\<open>BackendALU\<close>); the field \<open>alu.x\<close> of the source is \<open>alu_x alu\<close>, and
  \<open>None\<close> is an absent or \<open>null\<close> field.  The fields the source tests at run time keep the
  outcome of the test: \<open>micro_explanation\<close> is an array of strings or some other value
  (\<open>Array.isArray\<close>), \<open>flashcard\<close> is an object, given by its entries in the order of
  \<open>Object.entries\<close>, or a value that is not an object (\<open>typeof\<close>).
\<close>

record BackendQuiz =
  quiz_question :: "string option"
  quiz_choices :: "string list option"
  quiz_answer_index :: "int option"
  quiz_explanation :: "string option"

datatype any_array = IsArray "string list" | NotArray

datatype any_object = IsObject "(string \<times> string) list" | NotObject

record BackendALU =
  alu_alu_id :: string
  alu_node_id :: string
  alu_post_type :: "string option"
  alu_card_type :: "string option"
  alu_image_url :: "string option"
  alu_caption :: "string option"
  alu_micro_explanation :: "any_array option"
  alu_hook :: "string option"
  alu_credit :: "string option"
  alu_quiz :: "BackendQuiz option"
  alu_question :: "string option"
  alu_explanation :: "string option"
  alu_flashcard :: "any_object option"
  alu_front :: "string option"
  alu_back :: "string option"
  alu_hint :: "string option"

text \<open>Console output, kept where a property speaks about it.\<close>

datatype json =
    JNull | JBool bool | JNum int | JStr string | JArr "json list" | JObj "(string \<times> json) list"

datatype console =
    Warn_unknown_card_type string
  | Log_generateTopic_response json
  | Log_generateTopic_timed_out

text \<open>
  \<open>mapALUToCard\<close>: the console output of the call and the card, \<open>None\<close> for \<open>null\<close>.  The
  empty object \<open>{}\<close> that stands in for an absent \<open>quiz\<close> has no field.
\<close>

definition empty_quiz :: BackendQuiz where
  "empty_quiz = \<lparr>quiz_question = None, quiz_choices = None, quiz_answer_index = None,
                  quiz_explanation = None\<rparr>"

definition mapALUToCard :: "BackendALU \<Rightarrow> console list \<times> Card option" where
  "mapALUToCard alu =
     (let baseId = alu_alu_id alu;
          postType = coalesce_opt (alu_post_type alu) (alu_card_type alu)
      in if postType = Some ''image'' then
           (let caption =
                  coalesce (alu_caption alu)
                    (case alu_micro_explanation alu of
                       Some (IsArray fragments) \<Rightarrow> join '' '' fragments
                     | _ \<Rightarrow> [])
            in ([], Some (ImageCardData baseId (coalesce (alu_image_url alu) []) caption
                            (coalesce (alu_hook alu) []) (alu_credit alu))))
         else if postType = Some ''quiz'' then
           (let quiz = coalesce (alu_quiz alu) empty_quiz;
                choices = coalesce (quiz_choices quiz) [];
                options = map (\<lambda>(i, text). QuizOption (String_num (int i)) text)
                            (enumerate 0 choices)
            in ([], Some (QuizCardData baseId
                            (coalesce (quiz_question quiz) (coalesce (alu_question alu) []))
                            options
                            (String_num (coalesce (quiz_answer_index quiz) 0))
                            (coalesce (quiz_explanation quiz)
                               (coalesce (alu_explanation alu) [])))))
         else if postType = Some ''flashcard'' then
           (let front0 = coalesce (alu_front alu) [];
                back0 = coalesce (alu_back alu) [];
                (front, back) =
                  (case alu_flashcard alu of
                     Some (IsObject entries) \<Rightarrow>
                       (case entries of
                          [] \<Rightarrow> (front0, back0)
                        | entry # _ \<Rightarrow> (fst entry, snd entry))
                   | _ \<Rightarrow> (front0, back0))
            in ([], Some (FlashCardData baseId front back (alu_hint alu))))
         else
           ([Warn_unknown_card_type
               (''[api] Unknown card_type: '' @ coalesce postType ''undefined'')],
            None))"


text \<open>The internal topic model.  A placeholder has no \<open>stuck\<close> field.\<close>

datatype TopicStatus = Ready | Generating

datatype Depth = Beginner | Intermediate | Advanced

record Topic =
  topic_id :: string
  title :: string
  emoji :: string
  color :: string
  status :: TopicStatus
  depth :: Depth
  cardCount :: int
  cards :: "Card list"
  stuck :: "bool option"

text \<open>The two palettes; the emoji are written as their UTF-8 bytes.\<close>

definition TOPIC_COLORS :: "string list" where
  "TOPIC_COLORS =
     [''#6C63FF'', ''#FF6B6B'', ''#F7B731'', ''#26de81'',
      ''#FC5C7D'', ''#45B7D1'', ''#F78FB3'', ''#7158E2'']"

definition TOPIC_EMOJIS :: "string list" where
  "TOPIC_EMOJIS =
     [[CHR 0xF0, CHR 0x9F, CHR 0xA7, CHR 0xA0], [CHR 0xF0, CHR 0x9F, CHR 0x93, CHR 0x98],
      [CHR 0xF0, CHR 0x9F, CHR 0x94, CHR 0xAC], [CHR 0xE2, CHR 0x9A, CHR 0xA1],
      [CHR 0xF0, CHR 0x9F, CHR 0x8E, CHR 0x93], [CHR 0xF0, CHR 0x9F, CHR 0x92, CHR 0xA1],
      [CHR 0xF0, CHR 0x9F, CHR 0x8C, CHR 0x9F], [CHR 0xF0, CHR 0x9F, CHR 0x9A, CHR 0x80]]"

definition pickColor :: "nat \<Rightarrow> string" where
  "pickColor index = TOPIC_COLORS ! (index mod length TOPIC_COLORS)"

definition pickEmoji :: "nat \<Rightarrow> string" where
  "pickEmoji index = TOPIC_EMOJIS ! (index mod length TOPIC_EMOJIS)"

definition mapBackendTopic ::
    "(string \<Rightarrow> int option) \<Rightarrow> int \<Rightarrow> BackendTopicItem \<Rightarrow> nat \<Rightarrow> Topic" where
  "mapBackendTopic dateParse now item index =
     (let stuck = isStuckGenerating dateParse now item
      in \<lparr>topic_id = item_node_id item,
          title = coalesce (item_title item) ''Untitled'',
          emoji = coalesce (item_icon item) (pickEmoji index),
          color = pickColor index,
          status = (if isReadyStatus (item_status item) then Ready else Generating),
          depth = Intermediate,
          cardCount = coalesce (item_card_count item) 0,
          cards = [],
          stuck = Some stuck\<rparr>)"


section \<open>Backend gateway\<close>

text \<open>
  A promise settles at some time (in ms after the call that made it), fulfilled or
  rejected, or stays pending for ever.  What the network does with a request is the
  promise that \<open>fetch\<close> returns; it is a parameter of every gateway operation, and stands
  for the arguments that only go into the URL or the body of the request.  A response
  carries a body that \<open>res.json()\<close> parses or rejects; reading the body takes no time in
  the model.  The \<open>console\<close> calls of the gateway operations other than \<open>generateTopic\<close>
  are left out.
\<close>

datatype error = Request_timed_out | Fetch_failed | Invalid_json | TypeError | Aborted

datatype 'a outcome = Fulfilled 'a | Rejected error

datatype 'a promise = Settled nat "'a outcome" | Pending

datatype 'd response = Json_body 'd | Bad_body

definition json_of :: "'d response \<Rightarrow> 'd outcome" where
  "json_of res = (case res of Json_body d \<Rightarrow> Fulfilled d | Bad_body \<Rightarrow> Rejected Invalid_json)"

text \<open>\<open>await p\<close> followed by code that returns or throws, and a \<open>catch\<close> block.\<close>

definition promise_then :: "'a promise \<Rightarrow> ('a \<Rightarrow> 'b outcome) \<Rightarrow> 'b promise" where
  "promise_then p f =
     (case p of
        Settled t (Fulfilled v) \<Rightarrow> Settled t (f v)
      | Settled t (Rejected e) \<Rightarrow> Settled t (Rejected e)
      | Pending \<Rightarrow> Pending)"

definition promise_catch :: "'a promise \<Rightarrow> (error \<Rightarrow> 'a) \<Rightarrow> 'a promise" where
  "promise_catch p h =
     (case p of
        Settled t (Fulfilled v) \<Rightarrow> Settled t (Fulfilled v)
      | Settled t (Rejected e) \<Rightarrow> Settled t (Fulfilled (h e))
      | Pending \<Rightarrow> Pending)"

text \<open>
  \<open>fetchWithTimeout\<close>: \<open>Promise.race\<close> of the request and a timer that rejects after
  \<open>timeoutMs\<close> (15000 by default).  A request that settles only when the timer fires has
  lost the race.
\<close>

definition fetchWithTimeout :: "'r promise \<Rightarrow> nat \<Rightarrow> 'r promise" where
  "fetchWithTimeout fetch timeoutMs =
     (case fetch of
        Settled t r \<Rightarrow>
          if t < timeoutMs then Settled t r else Settled timeoutMs (Rejected Request_timed_out)
      | Pending \<Rightarrow> Settled timeoutMs (Rejected Request_timed_out))"

text \<open>
  The parsed body of a \<open>/feed\<close> response: a bare array, an object (its fields that hold
  arrays), \<open>null\<close> (reading a field of it throws), or a number, string or boolean (every
  field of it is \<open>undefined\<close>).
\<close>

datatype 'a feed =
    Feed_array "'a list"
  | Feed_object "string \<Rightarrow> 'a list option"
  | Feed_null
  | Feed_primitive

definition topic_items :: "'a feed \<Rightarrow> 'a list outcome" where
  "topic_items data =
     (case data of
        Feed_array items \<Rightarrow> Fulfilled items
      | Feed_object field \<Rightarrow>
          Fulfilled
            (coalesce
               (coalesce_opt
                  (coalesce_opt (coalesce_opt (field ''topics'') (field ''nodes''))
                     (field ''items''))
                  (field ''feed''))
               [])
      | Feed_null \<Rightarrow> Rejected TypeError
      | Feed_primitive \<Rightarrow> Fulfilled [])"

definition card_items :: "'a feed \<Rightarrow> 'a list outcome" where
  "card_items data =
     (case data of
        Feed_array alus \<Rightarrow> Fulfilled alus
      | Feed_object field \<Rightarrow>
          Fulfilled
            (coalesce
               (coalesce_opt (coalesce_opt (field ''cards'') (field ''alus'')) (field ''items''))
               [])
      | Feed_null \<Rightarrow> Rejected TypeError
      | Feed_primitive \<Rightarrow> Fulfilled [])"

definition getTopics ::
    "(string \<Rightarrow> int option) \<Rightarrow> int \<Rightarrow> BackendTopicItem feed response promise \<Rightarrow>
     Topic list promise" where
  "getTopics dateParse now fetch =
     promise_catch
       (promise_then (promise_then (fetchWithTimeout fetch 15000) json_of)
          (\<lambda>data.
             case topic_items data of
               Rejected e \<Rightarrow> Rejected e
             | Fulfilled items \<Rightarrow>
                 Fulfilled
                   (map (\<lambda>(index, item). mapBackendTopic dateParse now item index)
                      (enumerate 0 items))))
       (\<lambda>err. [])"

definition getCards :: "BackendALU feed response promise \<Rightarrow> Card list promise" where
  "getCards fetch =
     promise_catch
       (promise_then (promise_then (fetchWithTimeout fetch 15000) json_of)
          (\<lambda>data.
             case card_items data of
               Rejected e \<Rightarrow> Rejected e
             | Fulfilled alus \<Rightarrow>
                 Fulfilled
                   (map the
                      (filter (\<lambda>c. c \<noteq> None) (map (\<lambda>alu. snd (mapALUToCard alu)) alus)))))
       (\<lambda>err. [])"

definition markLearnt :: "json response promise \<Rightarrow> json promise" where
  "markLearnt fetch =
     promise_catch (promise_then (fetchWithTimeout fetch 15000) json_of) (\<lambda>err. JObj [])"

definition deleteTopic :: "json response promise \<Rightarrow> json promise" where
  "deleteTopic fetch =
     promise_catch (promise_then (fetchWithTimeout fetch 15000) json_of) (\<lambda>err. JObj [])"

text \<open>\<open>found?.status ?? 'generating'\<close> for the topic with the given id, and \<open>pollTopicStatus\<close>.\<close>

definition status_of_found :: "string \<Rightarrow> Topic list \<Rightarrow> TopicStatus" where
  "status_of_found nodeId topics =
     (case find (\<lambda>t. topic_id t = nodeId) topics of
        None \<Rightarrow> Generating
      | Some found \<Rightarrow> status found)"

definition pollTopicStatus ::
    "(string \<Rightarrow> int option) \<Rightarrow> int \<Rightarrow> string \<Rightarrow> BackendTopicItem feed response promise \<Rightarrow>
     TopicStatus promise" where
  "pollTopicStatus dateParse now nodeId fetch =
     promise_catch
       (promise_then (getTopics dateParse now fetch)
          (\<lambda>topics. Fulfilled (status_of_found nodeId topics)))
       (\<lambda>err. Generating)"

text \<open>
  \<open>generateTopic\<close>.  The call gives the body of the \<open>POST\<close> request, the promise it returns
  and the console output of the request's own promise chain, which nothing awaits: the
  chain logs once, when it settles, and never if the request stays pending.
\<close>

record GenerateBody =
  body_user_id :: string
  body_node_id :: string
  body_title :: string
  body_raw_text :: string

record GenerateResult =
  node_id :: string

record GenerateCall =
  request_body :: GenerateBody
  returned :: "GenerateResult promise"
  logged :: "console promise"

definition USER_ID :: string where
  "USER_ID = ''u1''"

definition generate_body :: "string \<Rightarrow> string \<Rightarrow> string \<Rightarrow> GenerateBody" where
  "generate_body ident title_arg rawText =
     \<lparr>body_user_id = USER_ID, body_node_id = ident, body_title = title_arg,
      body_raw_text = (if rawText \<noteq> [] then rawText else ''Tell me about '' @ title_arg)\<rparr>"

definition generateTopic ::
    "int \<Rightarrow> string \<Rightarrow> string option \<Rightarrow> string option \<Rightarrow> json response promise \<Rightarrow>
     GenerateCall" where
  "generateTopic now title_arg rawText_arg nodeId fetch =
     (let rawText = coalesce rawText_arg [];
          ident = coalesce nodeId (''node-'' @ String_num now)
      in \<lparr>request_body = generate_body ident title_arg rawText,
          returned = Settled 0 (Fulfilled \<lparr>node_id = ident\<rparr>),
          logged =
            promise_catch
              (promise_then (promise_then fetch json_of)
                 (\<lambda>data. Fulfilled (Log_generateTopic_response data)))
              (\<lambda>err. Log_generateTopic_timed_out)\<rparr>)"




section \<open>Generation orchestrator\<close>

text \<open>
  The state of the \<open>App\<close> component that the handlers publish to, and the variables a
  polling loop closes over.  The handlers are those of the variant of \<open>App\<close> that has
  \<open>handleRetryTopic\<close> (first poll after 3 s, then every 4 s or 8 s, for 5 minutes).
\<close>

record AppState =
  topics :: "Topic list"
  activeTopic :: "Topic option"
  generatingTopicId :: "string option"

record PollLoop =
  loop_nodeId :: string
  loop_startTime :: int

record Started =
  started_state :: AppState
  started_request :: GenerateBody
  started_loop :: PollLoop
  first_poll_after :: nat

definition BRAIN :: string where
  "BRAIN = [CHR 0xF0, CHR 0x9F, CHR 0xA7, CHR 0xA0]"

definition MAX_POLL_MS :: int where
  "MAX_POLL_MS = 5 * 60 * 1000"

text \<open>
  \<open>handleGenerate\<close> at time \<open>now\<close> (both calls of \<open>Date.now()\<close> give it): the request is
  sent and not awaited, the placeholder is put in front of the list and made active, and
  the first tick is scheduled.
\<close>

definition handleGenerate :: "int \<Rightarrow> string \<Rightarrow> Depth \<Rightarrow> AppState \<Rightarrow> Started" where
  "handleGenerate now title_arg depth_arg st =
     (let nodeId = ''node-'' @ String_num now;
          placeholderTopic =
            \<lparr>topic_id = nodeId, title = title_arg, emoji = BRAIN, color = ''#6C63FF'',
             status = Generating, depth = depth_arg, cardCount = 0, cards = [], stuck = None\<rparr>
      in \<lparr>started_state =
            st\<lparr>topics := placeholderTopic # topics st,
               activeTopic := Some placeholderTopic,
               generatingTopicId := Some nodeId\<rparr>,
          started_request = generate_body nodeId title_arg [],
          started_loop = \<lparr>loop_nodeId = nodeId, loop_startTime = now\<rparr>,
          first_poll_after = 3000\<rparr>)"

text \<open>
  The four statements both publishing branches of \<open>poll\<close> run on the refreshed list:
  \<open>setTopics(refreshed)\<close>, \<open>find\<close>, \<open>setActiveTopic\<close> when found, and
  \<open>setGeneratingTopicId(null)\<close>.
\<close>

definition publish_refreshed :: "string \<Rightarrow> Topic list \<Rightarrow> AppState \<Rightarrow> AppState" where
  "publish_refreshed nodeId refreshed st =
     st\<lparr>topics := refreshed,
        activeTopic :=
          (case find (\<lambda>t. topic_id t = nodeId) refreshed of
             None \<Rightarrow> activeTopic st
           | Some found \<Rightarrow> Some found),
        generatingTopicId := None\<rparr>"

text \<open>
  One tick of \<open>poll\<close> at time \<open>now\<close>.  \<open>polled\<close> is the list that \<open>getTopics\<close> resolves to
  inside \<open>pollTopicStatus\<close>, \<open>refreshed\<close> the list that the tick's own call of \<open>getTopics\<close>
  resolves to.  The result is the new state and the delay after which the tick runs
  again, if it does.  The counter \<open>attempt\<close> is only logged and is left out.
\<close>

definition poll ::
    "PollLoop \<Rightarrow> int \<Rightarrow> Topic list \<Rightarrow> Topic list \<Rightarrow> AppState \<Rightarrow> AppState \<times> nat option" where
  "poll loop now polled refreshed st =
     (let elapsed = now - loop_startTime loop
      in if elapsed > MAX_POLL_MS then
           (publish_refreshed (loop_nodeId loop) refreshed st, None)
         else if status_of_found (loop_nodeId loop) polled = Ready then
           (publish_refreshed (loop_nodeId loop) refreshed st, None)
         else
           (st, Some (if elapsed < 120000 then 4000 else 8000)))"

text \<open>
  \<open>handleRetryTopic\<close>, after the awaited \<open>deleteTopic\<close> has resolved at time \<open>now\<close>, and
  \<open>handleDeleteTopic\<close>.
\<close>

definition handleRetryTopic :: "int \<Rightarrow> Topic \<Rightarrow> AppState \<Rightarrow> Started" where
  "handleRetryTopic now topic st =
     (let st1 = st\<lparr>topics := filter (\<lambda>t. topic_id t \<noteq> topic_id topic) (topics st)\<rparr>;
          nodeId = ''node-'' @ String_num now;
          placeholderTopic =
            \<lparr>topic_id = nodeId, title = title topic, emoji = BRAIN, color = color topic,
             status = Generating, depth = depth topic, cardCount = 0, cards = [], stuck = None\<rparr>
      in \<lparr>started_state =
            st1\<lparr>topics := placeholderTopic # topics st1,
                activeTopic := Some placeholderTopic,
                generatingTopicId := Some nodeId\<rparr>,
          started_request = generate_body nodeId (title topic) [],
          started_loop = \<lparr>loop_nodeId = nodeId, loop_startTime = now\<rparr>,
          first_poll_after = 3000\<rparr>)"

definition handleDeleteTopic :: "string \<Rightarrow> AppState \<Rightarrow> AppState" where
  "handleDeleteTopic topicId st =
     (let updated = filter (\<lambda>t. topic_id t \<noteq> topicId) (topics st)
      in st\<lparr>topics := updated,
            activeTopic :=
              (if map_option topic_id (activeTopic st) = Some topicId
               then (case updated of [] \<Rightarrow> None | first # _ \<Rightarrow> Some first)
               else activeTopic st)\<rparr>)"


text \<open>The state of \<open>App\<close> before anything is loaded (the initial values of \<open>useState\<close>).\<close>

definition initial_state :: AppState where
  "initial_state = \<lparr>topics = [], activeTopic = None, generatingTopicId = None\<rparr>"


section \<open>Scenarios\<close>

text \<open>Backend records and sessions on which the properties below are evaluated.\<close>

definition blank_alu :: BackendALU where
  "blank_alu =
     \<lparr>alu_alu_id = ''alu-0'', alu_node_id = ''node-1000'', alu_post_type = None,
      alu_card_type = None, alu_image_url = None, alu_caption = None,
      alu_micro_explanation = None, alu_hook = None, alu_credit = None, alu_quiz = None,
      alu_question = None, alu_explanation = None, alu_flashcard = None, alu_front = None,
      alu_back = None, alu_hint = None\<rparr>"

definition scenario_quiz :: BackendALU where
  "scenario_quiz =
     blank_alu\<lparr>alu_alu_id := ''alu-1'', alu_post_type := Some ''quiz'',
       alu_quiz := Some \<lparr>quiz_question = Some ''Q?'', quiz_choices = Some [''A'', ''B'', ''C''],
                          quiz_answer_index = Some 1, quiz_explanation = Some ''E''\<rparr>\<rparr>"

definition scenario_flashcard :: BackendALU where
  "scenario_flashcard =
     blank_alu\<lparr>alu_alu_id := ''alu-2'', alu_post_type := Some ''flashcard'',
       alu_flashcard := Some (IsObject [(''What is X?'', ''X is Y''), (''Then Z?'', ''Z'')]),
       alu_front := Some ''explicit front'', alu_back := Some ''explicit back''\<rparr>"

definition scenario_flashcard_fields :: BackendALU where
  "scenario_flashcard_fields =
     blank_alu\<lparr>alu_alu_id := ''alu-3'', alu_card_type := Some ''flashcard'',
       alu_front := Some ''explicit front''\<rparr>"

definition scenario_image :: BackendALU where
  "scenario_image =
     blank_alu\<lparr>alu_alu_id := ''alu-4'', alu_card_type := Some ''image'',
       alu_image_url := Some ''https://cdn/1.png'',
       alu_micro_explanation := Some (IsArray [''Creatine'', ''stores'', ''energy''])\<rparr>"

definition scenario_unknown :: BackendALU where
  "scenario_unknown = blank_alu\<lparr>alu_alu_id := ''alu-5'', alu_card_type := Some ''video''\<rparr>"

definition scenario_item :: BackendTopicItem where
  "scenario_item =
     \<lparr>item_node_id = ''node-1000'', item_title = Some ''Creatine'', item_icon = None,
      item_status = Some ''completed'', item_card_count = Some 12, item_learnt_count = None,
      item_created_at = None\<rparr>"

definition no_dates :: "string \<Rightarrow> int option" where
  "no_dates s = None"

text \<open>
  A session: a topic is submitted at time 1000 and retried at time 61000; the backend
  then lists the new topic as still generating.
\<close>

definition first_attempt :: Started where
  "first_attempt = handleGenerate 1000 ''Creatine'' Beginner initial_state"

definition second_attempt :: Started where
  "second_attempt =
     handleRetryTopic 61000 (hd (topics (started_state first_attempt)))
       (started_state first_attempt)"

definition backend_list :: "Topic list" where
  "backend_list =
     [\<lparr>topic_id = ''node-61000'', title = ''Creatine'', emoji = BRAIN, color = ''#6C63FF'',
       status = Generating, depth = Intermediate, cardCount = 0, cards = [],
       stuck = Some False\<rparr>]"

text \<open>
  A submission with depth \<open>advanced\<close>, and a \<open>/feed\<close> response after 200 ms that lists the
  submitted topic as completed.
\<close>

definition advanced_attempt :: Started where
  "advanced_attempt = handleGenerate 1000 ''Creatine'' Advanced initial_state"

definition completed_feed :: "BackendTopicItem feed response promise" where
  "completed_feed = Settled 200 (Fulfilled (Json_body (Feed_array [scenario_item])))"


section \<open>Properties of the status classifier\<close>

lemma white_space_bytes:
  assumes "w \<in> set WHITE_SPACE"
  shows "w \<noteq> [] \<and> (\<forall>c \<in> set w. (of_char c :: nat) \<le> 32 \<or> 128 \<le> (of_char c :: nat))"
  using assms
  apply (simp only: WHITE_SPACE_def list.set insert_iff empty_iff)
  apply (elim disjE)
  apply simp_all
  done

lemma lead_white_space:
  assumes "w \<in> set WHITE_SPACE"
  shows "lead WHITE_SPACE (w @ r) = length w"
  using assms
  apply (simp only: WHITE_SPACE_def list.set insert_iff empty_iff)
  apply (elim disjE)
  apply (simp_all add: lead_def)
  done

lemma lead_white_space_rev:
  assumes "w \<in> set (map rev WHITE_SPACE)"
  shows "lead (map rev WHITE_SPACE) (w @ r) = length w"
  using assms
  apply (simp only: WHITE_SPACE_def list.set list.map rev.simps append.simps insert_iff empty_iff)
  apply (elim disjE)
  apply (simp_all add: lead_def)
  done

lemma find_Some_holds: "find P xs = Some x \<Longrightarrow> P x \<and> x \<in> set xs"
  by (induction xs) (auto split: if_splits)

lemma lead_other:
  assumes "\<forall>w \<in> set ws. w \<noteq> [] \<and> hd w \<noteq> c"
  shows "lead ws (c # r) = 0"
proof -
  have "\<not> (\<exists>w. w \<in> set ws \<and> take (length w) (c # r) = w)"
  proof
    assume "\<exists>w. w \<in> set ws \<and> take (length w) (c # r) = w"
    then obtain w where w: "w \<in> set ws" and t: "take (length w) (c # r) = w"
      by blast
    from w assms have "w \<noteq> []" and "hd w \<noteq> c"
      by auto
    then obtain a w' where "w = a # w'" and "a \<noteq> c"
      by (cases w) simp_all
    with t show False
      by simp
  qed
  then have "find (\<lambda>w. take (length w) (c # r) = w) ws = None"
    by (simp add: find_None_iff)
  then show ?thesis
    by (simp add: lead_def)
qed

lemma strip_concat:
  assumes "set ps \<subseteq> set ws"
    and "\<And>w r. w \<in> set ws \<Longrightarrow> lead ws (w @ r) = length w \<and> w \<noteq> []"
  shows "strip ws (concat ps @ r) = strip ws r"
  using assms(1)
proof (induction ps)
  case Nil
  then show ?case by simp
next
  case (Cons p ps)
  then have p: "lead ws (p @ concat ps @ r) = length p" "p \<noteq> []"
    using assms(2) by auto
  then have "strip ws (p @ concat ps @ r) = strip ws (concat ps @ r)"
    by (subst strip.simps) simp
  with Cons show ?case
    by simp
qed

lemma strip_split:
  "\<exists>ps. set ps \<subseteq> set ws \<and> s = concat ps @ strip ws s"
proof (induction ws s rule: strip.induct)
  case (1 ws s)
  show ?case
  proof (cases "lead ws s = 0")
    case True
    then have "s = concat [] @ strip ws s"
      by (subst strip.simps) simp
    then show ?thesis
      by (metis empty_set empty_subsetI)
  next
    case False
    then obtain w where f: "find (\<lambda>w. take (length w) s = w) ws = Some w"
      by (auto simp: lead_def split: option.splits)
    then have w: "w \<in> set ws" "take (length w) s = w" "lead ws s = length w"
      by (auto dest: find_Some_holds simp: lead_def)
    from 1 False obtain ps where ps: "set ps \<subseteq> set ws"
        "drop (lead ws s) s = concat ps @ strip ws (drop (lead ws s) s)"
      by blast
    have "strip ws s = strip ws (drop (lead ws s) s)"
      using False by (subst strip.simps) simp
    moreover have "s = w @ drop (length w) s"
      using w(2) by (metis append_take_drop_id)
    ultimately have "s = concat (w # ps) @ strip ws s"
      using ps(2) w(3) by simp
    moreover have "set (w # ps) \<subseteq> set ws"
      using w(1) ps(1) by simp
    ultimately show ?thesis
      by blast
  qed
qed

lemma trimStart_white:
  assumes "set ps \<subseteq> set WHITE_SPACE"
  shows "trimStart (concat ps @ r) = trimStart r"
  unfolding trimStart_def using assms
  by (rule strip_concat) (simp add: lead_white_space white_space_bytes)

lemma white_space_rev_bytes:
  assumes "w \<in> set (map rev WHITE_SPACE)"
  shows "w \<noteq> [] \<and> (\<forall>c \<in> set w. (of_char c :: nat) \<le> 32 \<or> 128 \<le> (of_char c :: nat))"
proof -
  from assms obtain v where "v \<in> set WHITE_SPACE" and "w = rev v"
    by auto
  then show ?thesis
    using white_space_bytes [of v] by simp
qed

lemma strip_plain:
  assumes "\<And>w. w \<in> set ws \<Longrightarrow>
             w \<noteq> [] \<and> (\<forall>c \<in> set w. (of_char c :: nat) \<le> 32 \<or> 128 \<le> (of_char c :: nat))"
    and "95 \<le> (of_char c :: nat)" and "(of_char c :: nat) \<le> 122"
  shows "strip ws (c # r) = c # r"
proof -
  have "\<forall>w \<in> set ws. w \<noteq> [] \<and> hd w \<noteq> c"
  proof
    fix w
    assume "w \<in> set ws"
    then have w: "w \<noteq> []" "\<forall>c \<in> set w. (of_char c :: nat) \<le> 32 \<or> 128 \<le> (of_char c :: nat)"
      using assms(1) by auto
    then have "(of_char (hd w) :: nat) \<le> 32 \<or> 128 \<le> (of_char (hd w) :: nat)"
      by simp
    with assms(2,3) have "hd w \<noteq> c"
      by auto
    with w(1) show "w \<noteq> [] \<and> hd w \<noteq> c"
      by simp
  qed
  then have "lead ws (c # r) = 0"
    by (rule lead_other)
  then show ?thesis
    by (subst strip.simps) simp
qed

lemma trimEnd_white:
  assumes "set qs \<subseteq> set WHITE_SPACE"
  shows "trimEnd (r @ concat qs) = trimEnd r"
proof -
  have "set (map rev (rev qs)) \<subseteq> set (map rev WHITE_SPACE)"
    using assms by auto
  then have "strip (map rev WHITE_SPACE) (concat (map rev (rev qs)) @ rev r)
               = strip (map rev WHITE_SPACE) (rev r)"
    by (rule strip_concat) (simp add: lead_white_space_rev white_space_rev_bytes)
  then show ?thesis
    by (simp add: trimEnd_def rev_concat)
qed

lemma trim_sandwich:
  assumes "set ps \<subseteq> set WHITE_SPACE" and "set qs \<subseteq> set WHITE_SPACE"
    and "syn \<noteq> []" and "\<forall>c \<in> set syn. 95 \<le> (of_char c :: nat) \<and> (of_char c :: nat) \<le> 122"
  shows "trim (concat ps @ syn @ concat qs) = syn"
proof -
  from assms(3) obtain c r where syn: "syn = c # r"
    by (cases syn) auto
  from assms(3) obtain d t where rsyn: "rev syn = d # t"
    by (cases "rev syn") auto
  then have "d \<in> set syn"
    by (metis list.set_intros(1) set_rev)
  have "trimStart (concat ps @ syn @ concat qs) = trimStart (syn @ concat qs)"
    using assms(1) by (rule trimStart_white)
  also have "\<dots> = syn @ concat qs"
    unfolding trimStart_def syn using assms(4) syn
    by (simp add: strip_plain white_space_bytes)
  finally have "trim (concat ps @ syn @ concat qs) = trimEnd (syn @ concat qs)"
    by (simp add: trim_def)
  also have "\<dots> = trimEnd syn"
    using assms(2) by (rule trimEnd_white)
  also have "\<dots> = rev (strip (map rev WHITE_SPACE) (d # t))"
    by (simp add: trimEnd_def rsyn)
  also have "\<dots> = rev (d # t)"
  proof -
    have "strip (map rev WHITE_SPACE) (d # t) = d # t"
    proof (rule strip_plain)
      fix w
      assume "w \<in> set (map rev WHITE_SPACE)"
      then show "w \<noteq> [] \<and> (\<forall>c \<in> set w. (of_char c :: nat) \<le> 32 \<or> 128 \<le> (of_char c :: nat))"
        by (rule white_space_rev_bytes)
    next
      show "95 \<le> (of_char d :: nat)" and "(of_char d :: nat) \<le> 122"
        using assms(4) \<open>d \<in> set syn\<close> by auto
    qed
    then show ?thesis
      by simp
  qed
  also have "\<dots> = syn"
    using rsyn by (metis rev_rev_ident)
  finally show ?thesis .
qed

lemma trim_split:
  "\<exists>ps qs. set ps \<subseteq> set WHITE_SPACE \<and> set qs \<subseteq> set WHITE_SPACE \<and>
     s = concat ps @ trim s @ concat qs"
proof -
  obtain ps where ps: "set ps \<subseteq> set WHITE_SPACE" "s = concat ps @ trimStart s"
    unfolding trimStart_def using strip_split by blast
  obtain rs where rs: "set rs \<subseteq> set (map rev WHITE_SPACE)"
      "rev (trimStart s) = concat rs @ strip (map rev WHITE_SPACE) (rev (trimStart s))"
    using strip_split by blast
  have "trimStart s = rev (rev (trimStart s))"
    by simp
  also have "\<dots> = trim s @ rev (concat rs)"
    by (subst rs(2)) (simp add: trim_def trimEnd_def)
  also have "rev (concat rs) = concat (map rev (rev rs))"
    by (rule rev_concat)
  finally have "s = concat ps @ trim s @ concat (map rev (rev rs))"
    using ps(2) by simp
  moreover have "set (map rev (rev rs)) \<subseteq> set WHITE_SPACE"
    using rs(1) by auto
  ultimately show ?thesis
    using ps(1) by blast
qed

lemma toLowerCaseChar_keeps:
  assumes "\<not> (65 \<le> (of_char c :: nat) \<and> (of_char c :: nat) \<le> 90)"
  shows "toLowerCaseChar c = c"
  using assms by (auto simp: toLowerCaseChar_def Let_def)

lemma toLowerCaseChar_capital:
  assumes "65 \<le> (of_char c :: nat)" and "(of_char c :: nat) \<le> 90"
  shows "(of_char (toLowerCaseChar c) :: nat) = of_char c + 32"
  using assms by (simp add: toLowerCaseChar_def Let_def)

lemma toLowerCase_back:
  assumes "toLowerCase a = x"
    and "\<forall>d \<in> set x. (of_char d :: nat) \<le> 32 \<or> 128 \<le> (of_char d :: nat)"
  shows "a = x"
  using assms
proof (induction a arbitrary: x)
  case Nil
  then show ?case by (simp add: toLowerCase_def)
next
  case (Cons c a)
  from Cons.prems(1) have "toLowerCaseChar c # toLowerCase a = x"
    by (simp add: toLowerCase_def)
  then obtain d y where x: "x = d # y" and d: "toLowerCaseChar c = d" and y: "toLowerCase a = y"
    by blast
  have "c = d"
  proof (cases "65 \<le> (of_char c :: nat) \<and> (of_char c :: nat) \<le> 90")
    case True
    then have od: "(of_char d :: nat) = of_char c + 32"
      using toLowerCaseChar_capital [of c] d by simp
    have "d \<in> set x"
      using x by simp
    then have "(of_char d :: nat) \<le> 32 \<or> 128 \<le> (of_char d :: nat)"
      using Cons.prems(2) by blast
    with od True have False
      by arith
    then show ?thesis ..
  next
    case False
    then have "toLowerCaseChar c = c"
      by (rule toLowerCaseChar_keeps)
    with d show ?thesis
      by simp
  qed
  moreover have "\<forall>d \<in> set y. (of_char d :: nat) \<le> 32 \<or> 128 \<le> (of_char d :: nat)"
    using Cons.prems(2) x by simp
  then have "a = y"
    using Cons.IH [OF y] by blast
  ultimately show ?case
    using x by simp
qed

lemma concat_white_bytes:
  assumes "set ps \<subseteq> set WHITE_SPACE"
  shows "\<forall>d \<in> set (concat ps). (of_char d :: nat) \<le> 32 \<or> 128 \<le> (of_char d :: nat)"
proof
  fix d
  assume "d \<in> set (concat ps)"
  then obtain p where "p \<in> set ps" and d: "d \<in> set p"
    by auto
  with assms have "p \<in> set WHITE_SPACE"
    by blast
  then have "\<forall>c \<in> set p. (of_char c :: nat) \<le> 32 \<or> 128 \<le> (of_char c :: nat)"
    by (simp add: white_space_bytes)
  with d show "(of_char d :: nat) \<le> 32 \<or> 128 \<le> (of_char d :: nat)"
    by blast
qed

lemma toLowerCase_white:
  assumes "set ps \<subseteq> set WHITE_SPACE"
  shows "toLowerCase (concat ps) = concat ps"
proof -
  have "\<forall>d \<in> set (concat ps). toLowerCaseChar d = d"
  proof
    fix d
    assume "d \<in> set (concat ps)"
    then have "(of_char d :: nat) \<le> 32 \<or> 128 \<le> (of_char d :: nat)"
      using concat_white_bytes [OF assms] by blast
    then have "\<not> (65 \<le> (of_char d :: nat) \<and> (of_char d :: nat) \<le> 90)"
      by arith
    then show "toLowerCaseChar d = d"
      by (rule toLowerCaseChar_keeps)
  qed
  then show ?thesis
    unfolding toLowerCase_def by (intro map_idI) blast
qed

lemma equal_ignoring_case_lower: "equal_ignoring_case w (toLowerCase w)"
proof -
  have "a = toLowerCaseChar a \<or>
        (65 \<le> (of_char a :: nat) \<and> (of_char a :: nat) \<le> 90 \<and>
         (of_char (toLowerCaseChar a) :: nat) = of_char a + 32)" for a
  proof (cases "65 \<le> (of_char a :: nat) \<and> (of_char a :: nat) \<le> 90")
    case True
    then show ?thesis
      by (simp add: toLowerCaseChar_capital)
  next
    case False
    then show ?thesis
      by (simp add: toLowerCaseChar_keeps)
  qed
  then show ?thesis
    unfolding equal_ignoring_case_def toLowerCase_def
    by (simp add: list_all2_map2 list_all2_same)
qed

lemma lower_of_equal_ignoring_case:
  assumes "equal_ignoring_case w syn"
    and "\<forall>c \<in> set syn. 95 \<le> (of_char c :: nat) \<and> (of_char c :: nat) \<le> 122"
  shows "toLowerCase w = syn"
  using assms unfolding equal_ignoring_case_def
proof (induction w syn rule: list_all2_induct)
  case Nil
  then show ?case by (simp add: toLowerCase_def)
next
  case (Cons a w b syn)
  have "toLowerCaseChar a = b"
  proof (cases "a = b")
    case True
    with Cons.prems have "95 \<le> (of_char a :: nat)"
      by simp
    then have "\<not> (65 \<le> (of_char a :: nat) \<and> (of_char a :: nat) \<le> 90)"
      by arith
    then have "toLowerCaseChar a = a"
      by (rule toLowerCaseChar_keeps)
    with True show ?thesis
      by simp
  next
    case False
    with Cons.hyps(1) have cap: "65 \<le> (of_char a :: nat)" "(of_char a :: nat) \<le> 90"
        and b: "(of_char b :: nat) = of_char a + 32"
      by auto
    then have "(of_char (toLowerCaseChar a) :: nat) = of_char b"
      by (simp add: toLowerCaseChar_capital)
    then show ?thesis
      by simp
  qed
  with Cons show ?case
    by (simp add: toLowerCase_def)
qed

lemma ready_general:
  assumes "\<forall>syn \<in> set syns.
             syn \<noteq> [] \<and> (\<forall>c \<in> set syn. 95 \<le> (of_char c :: nat) \<and> (of_char c :: nat) \<le> 122)"
  shows "(s \<noteq> [] \<and> trim (toLowerCase s) \<in> set syns) =
         (\<exists>ps w qs syn. s = concat ps @ w @ concat qs \<and>
            set ps \<subseteq> set WHITE_SPACE \<and> set qs \<subseteq> set WHITE_SPACE \<and>
            equal_ignoring_case w syn \<and> syn \<in> set syns)"
proof
  assume l: "s \<noteq> [] \<and> trim (toLowerCase s) \<in> set syns"
  obtain ps qs where ps: "set ps \<subseteq> set WHITE_SPACE" and qs: "set qs \<subseteq> set WHITE_SPACE"
      and split: "toLowerCase s = concat ps @ trim (toLowerCase s) @ concat qs"
    using trim_split by blast
  define t where "t = trim (toLowerCase s)"
  from split have "map toLowerCaseChar s = concat ps @ (t @ concat qs)"
    by (simp add: toLowerCase_def t_def)
  then obtain a r where ar: "s = a @ r" "concat ps = map toLowerCaseChar a"
      "t @ concat qs = map toLowerCaseChar r"
    unfolding map_eq_append_conv by blast
  from ar(3) obtain w c where wc: "r = w @ c" "t = map toLowerCaseChar w"
      "concat qs = map toLowerCaseChar c"
    unfolding append_eq_map_conv by blast
  have s: "s = a @ w @ c" and a: "toLowerCase a = concat ps"
      and w: "toLowerCase w = trim (toLowerCase s)" and c: "toLowerCase c = concat qs"
    using ar wc by (simp_all add: toLowerCase_def t_def)
  have "a = concat ps"
    using a concat_white_bytes [OF ps] by (rule toLowerCase_back)
  moreover have "c = concat qs"
    using c concat_white_bytes [OF qs] by (rule toLowerCase_back)
  moreover have "equal_ignoring_case w (trim (toLowerCase s))"
    using equal_ignoring_case_lower [of w] w by simp
  ultimately show "\<exists>ps w qs syn. s = concat ps @ w @ concat qs \<and>
            set ps \<subseteq> set WHITE_SPACE \<and> set qs \<subseteq> set WHITE_SPACE \<and>
            equal_ignoring_case w syn \<and> syn \<in> set syns"
    using s ps qs l by blast
next
  assume "\<exists>ps w qs syn. s = concat ps @ w @ concat qs \<and>
            set ps \<subseteq> set WHITE_SPACE \<and> set qs \<subseteq> set WHITE_SPACE \<and>
            equal_ignoring_case w syn \<and> syn \<in> set syns"
  then obtain ps w qs syn where s: "s = concat ps @ w @ concat qs"
      and ps: "set ps \<subseteq> set WHITE_SPACE" and qs: "set qs \<subseteq> set WHITE_SPACE"
      and eq: "equal_ignoring_case w syn" and syn: "syn \<in> set syns"
    by blast
  from syn assms have plain: "syn \<noteq> []"
      "\<forall>c \<in> set syn. 95 \<le> (of_char c :: nat) \<and> (of_char c :: nat) \<le> 122"
    by auto
  have low: "toLowerCase w = syn"
    using eq plain(2) by (rule lower_of_equal_ignoring_case)
  then have "w \<noteq> []"
    using plain(1) by (auto simp: toLowerCase_def)
  have "toLowerCase s = concat ps @ syn @ concat qs"
    using s low toLowerCase_white [OF ps] toLowerCase_white [OF qs]
    by (simp add: toLowerCase_def)
  then have "trim (toLowerCase s) = syn"
    using trim_sandwich [OF ps qs plain] by simp
  with syn s \<open>w \<noteq> []\<close> show "s \<noteq> [] \<and> trim (toLowerCase s) \<in> set syns"
    by simp
qed

lemma synonyms_plain:
  "\<forall>syn \<in> set [''ready'', ''completed'', ''done'', ''complete'', ''finished'', ''images_pending''].
     syn \<noteq> [] \<and> (\<forall>c \<in> set syn. 95 \<le> (of_char c :: nat) \<and> (of_char c :: nat) \<le> 122)"
  by simp

lemma synonyms_v1_plain:
  "\<forall>syn \<in> set [''ready'', ''completed'', ''done'', ''complete'', ''finished''].
     syn \<noteq> [] \<and> (\<forall>c \<in> set syn. 95 \<le> (of_char c :: nat) \<and> (of_char c :: nat) \<le> 122)"
  by simp


text \<open>
  Claim C1.  A status is ready exactly when it is present and consists of white space,
  then one of \<open>ready\<close>, \<open>completed\<close>, \<open>done\<close>, \<open>complete\<close>, \<open>finished\<close> (and
  \<open>images_pending\<close> in the current gateway) with each letter in either case, then white
  space; every other string, and an absent status, is not ready.  The second conjunct is
  the earlier variant, without \<open>images_pending\<close>.
\<close>

theorem isReadyStatus_iff_synonym:
  "isReadyStatus st =
     (\<exists>ps w qs syn. st = Some (concat ps @ w @ concat qs) \<and>
        set ps \<subseteq> set WHITE_SPACE \<and> set qs \<subseteq> set WHITE_SPACE \<and>
        equal_ignoring_case w syn \<and>
        syn \<in> set [''ready'', ''completed'', ''done'', ''complete'', ''finished'',
                    ''images_pending'']) \<and>
   isReadyStatus_v1 st =
     (\<exists>ps w qs syn. st = Some (concat ps @ w @ concat qs) \<and>
        set ps \<subseteq> set WHITE_SPACE \<and> set qs \<subseteq> set WHITE_SPACE \<and>
        equal_ignoring_case w syn \<and>
        syn \<in> set [''ready'', ''completed'', ''done'', ''complete'', ''finished''])"
proof (cases st)
  case None
  then show ?thesis
    by (simp add: isReadyStatus_def isReadyStatus_v1_def)
next
  case (Some s)
  have "isReadyStatus (Some s) =
          (s \<noteq> [] \<and> trim (toLowerCase s) \<in>
             set [''ready'', ''completed'', ''done'', ''complete'', ''finished'',
                  ''images_pending''])"
    by (simp add: isReadyStatus_def Let_def)
  moreover have "isReadyStatus_v1 (Some s) =
          (s \<noteq> [] \<and> trim (toLowerCase s) \<in>
             set [''ready'', ''completed'', ''done'', ''complete'', ''finished''])"
    by (simp add: isReadyStatus_v1_def Let_def)
  ultimately show ?thesis
    unfolding Some ready_general [OF synonyms_plain] ready_general [OF synonyms_v1_plain]
    by simp
qed

text \<open>
  Mixed case between a tab, a space, a no-break space and a line feed; capitals after a
  byte order mark; and \<open>Done\<close> followed by an ideographic space in the earlier variant.
\<close>

theorem isReadyStatus_iff_synonym_witness:
  "isReadyStatus (Some ([CHR 0x09] @ '' '' @ ''ComPleted'' @ [CHR 0xC2, CHR 0xA0] @ [CHR 0x0A])) \<and>
   isReadyStatus (Some ([CHR 0xEF, CHR 0xBB, CHR 0xBF] @ ''IMAGES_PENDING'')) \<and>
   isReadyStatus_v1 (Some (''Done'' @ [CHR 0xE3, CHR 0x80, CHR 0x80]))"
proof -
  have "\<exists>ps w qs syn.
          Some ([CHR 0x09] @ '' '' @ ''ComPleted'' @ [CHR 0xC2, CHR 0xA0] @ [CHR 0x0A]) =
            Some (concat ps @ w @ concat qs) \<and>
          set ps \<subseteq> set WHITE_SPACE \<and> set qs \<subseteq> set WHITE_SPACE \<and>
          equal_ignoring_case w syn \<and>
          syn \<in> set [''ready'', ''completed'', ''done'', ''complete'', ''finished'',
                      ''images_pending'']"
    by (intro exI [of _ "[[CHR 0x09], '' '']"] exI [of _ "''ComPleted''"]
          exI [of _ "[[CHR 0xC2, CHR 0xA0], [CHR 0x0A]]"] exI [of _ "''completed''"])
       (simp add: WHITE_SPACE_def equal_ignoring_case_def)
  then have one: "isReadyStatus
      (Some ([CHR 0x09] @ '' '' @ ''ComPleted'' @ [CHR 0xC2, CHR 0xA0] @ [CHR 0x0A]))"
    by (rule isReadyStatus_iff_synonym [THEN conjunct1, THEN iffD2])
  have "\<exists>ps w qs syn.
          Some ([CHR 0xEF, CHR 0xBB, CHR 0xBF] @ ''IMAGES_PENDING'') =
            Some (concat ps @ w @ concat qs) \<and>
          set ps \<subseteq> set WHITE_SPACE \<and> set qs \<subseteq> set WHITE_SPACE \<and>
          equal_ignoring_case w syn \<and>
          syn \<in> set [''ready'', ''completed'', ''done'', ''complete'', ''finished'',
                      ''images_pending'']"
    by (intro exI [of _ "[[CHR 0xEF, CHR 0xBB, CHR 0xBF]]"] exI [of _ "''IMAGES_PENDING''"]
          exI [of _ "[]"] exI [of _ "''images_pending''"])
       (simp add: WHITE_SPACE_def equal_ignoring_case_def)
  then have two: "isReadyStatus (Some ([CHR 0xEF, CHR 0xBB, CHR 0xBF] @ ''IMAGES_PENDING''))"
    by (rule isReadyStatus_iff_synonym [THEN conjunct1, THEN iffD2])
  have "\<exists>ps w qs syn.
          Some (''Done'' @ [CHR 0xE3, CHR 0x80, CHR 0x80]) = Some (concat ps @ w @ concat qs) \<and>
          set ps \<subseteq> set WHITE_SPACE \<and> set qs \<subseteq> set WHITE_SPACE \<and>
          equal_ignoring_case w syn \<and>
          syn \<in> set [''ready'', ''completed'', ''done'', ''complete'', ''finished'']"
    by (intro exI [of _ "[]"] exI [of _ "''Done''"]
          exI [of _ "[[CHR 0xE3, CHR 0x80, CHR 0x80]]"] exI [of _ "''done''"])
       (simp add: WHITE_SPACE_def equal_ignoring_case_def)
  then have three: "isReadyStatus_v1 (Some (''Done'' @ [CHR 0xE3, CHR 0x80, CHR 0x80]))"
    by (rule isReadyStatus_iff_synonym [THEN conjunct2, THEN iffD2])
  from one two three show ?thesis
    by (intro conjI)
qed

text \<open>
  The same by evaluation, with statuses that are not ready: an unknown word, white space
  inside the word, a letter outside ASCII, white space only, the empty string.
\<close>

lemma isReadyStatus_examples:
  "isReadyStatus (Some ''  Completed '') \<and> isReadyStatus (Some ''IMAGES_PENDING'') \<and>
   isReadyStatus (Some (''ready'' @ [CHR 0xC2, CHR 0xA0])) \<and>
   isReadyStatus (Some ([CHR 0xEF, CHR 0xBB, CHR 0xBF] @ ''ready'')) \<and>
   isReadyStatus_v1 (Some (''ready'' @ [CHR 0xC2, CHR 0xA0])) \<and>
   \<not> isReadyStatus_v1 (Some ''images_pending'') \<and> \<not> isReadyStatus (Some ''generating'') \<and>
   \<not> isReadyStatus (Some ''re ady'') \<and> \<not> isReadyStatus (Some (''read'' @ [CHR 0xC3, CHR 0xBD])) \<and>
   \<not> isReadyStatus (Some '' '') \<and> \<not> isReadyStatus (Some []) \<and> \<not> isReadyStatus None"
  by code_simp

text \<open>
  Claim C2, as amended.  A topic record is stuck exactly when its status is not ready, its
  card count (0 when absent) is not positive, a non-empty \<open>created_at\<close> is present and
  parses to a time more than 10 minutes (600000 ms) before \<open>now\<close>.  The source tests the
  count with \<open>> 0\<close>, so a negative count does not prevent the flag.
\<close>

theorem isStuckGenerating_iff:
  "isStuckGenerating dateParse now item =
     (\<not> isReadyStatus (item_status item) \<and>
      coalesce (item_card_count item) 0 \<le> 0 \<and>
      (\<exists>c createdMs. item_created_at item = Some c \<and> c \<noteq> [] \<and>
          dateParse c = Some createdMs \<and> now - createdMs > 600000))"
  by (auto simp: isStuckGenerating_def Let_def split: option.splits)

text \<open>
  A record with status \<open>generating\<close>, card count \<open>-1\<close> and a creation time 600001 ms ago
  is flagged stuck although its card count is not zero.
\<close>

theorem isStuckGenerating_negative_count_counterexample:
  "isStuckGenerating (\<lambda>s. if s = ''1970-01-01T00:00:00.000Z'' then Some 0 else None) 600001
     \<lparr>item_node_id = ''node-1'', item_title = Some ''Creatine'', item_icon = None,
      item_status = Some ''generating'', item_card_count = Some (- 1),
      item_learnt_count = None, item_created_at = Some ''1970-01-01T00:00:00.000Z''\<rparr>
   \<and> coalesce (Some (- 1)) (0::int) \<noteq> 0"
proof -
  have "\<not> isReadyStatus (Some ''generating'')"
    by code_simp
  then show ?thesis
    by (simp add: isStuckGenerating_def coalesce_def)
qed

text \<open>
  A topic created 15 minutes ago with status \<open>generating\<close> is stuck when its card count is
  0 or absent, and not stuck when the count is 1 or the creation time is missing.
\<close>

lemma isStuckGenerating_scenario:
  "isStuckGenerating (\<lambda>s. if s = ''1970-01-01T00:00:00.000Z'' then Some 0 else None) 900000
     (scenario_item\<lparr>item_status := Some ''generating'', item_card_count := Some 0,
        item_created_at := Some ''1970-01-01T00:00:00.000Z''\<rparr>) \<and>
   isStuckGenerating (\<lambda>s. if s = ''1970-01-01T00:00:00.000Z'' then Some 0 else None) 900000
     (scenario_item\<lparr>item_status := Some ''generating'', item_card_count := None,
        item_created_at := Some ''1970-01-01T00:00:00.000Z''\<rparr>) \<and>
   \<not> isStuckGenerating (\<lambda>s. if s = ''1970-01-01T00:00:00.000Z'' then Some 0 else None) 900000
     (scenario_item\<lparr>item_status := Some ''generating'', item_card_count := Some 1,
        item_created_at := Some ''1970-01-01T00:00:00.000Z''\<rparr>) \<and>
   \<not> isStuckGenerating (\<lambda>s. if s = ''1970-01-01T00:00:00.000Z'' then Some 0 else None) 900000
     (scenario_item\<lparr>item_status := Some ''generating'', item_card_count := Some 0\<rparr>)"
proof -
  have "\<not> isReadyStatus (Some ''generating'')"
    by code_simp
  then show ?thesis
    by (simp add: isStuckGenerating_def coalesce_def scenario_item_def)
qed

section \<open>Properties of the payload normalizer\<close>

lemma String_num_0: "String_num 0 = ''0''"
  by code_simp

lemma join_Cons: "join sep (x # xs) = x @ concat (map (\<lambda>y. sep @ y) xs)"
  by (induction xs arbitrary: x) auto

lemma options_text:
  "map option_text (map (\<lambda>(i, text). QuizOption (String_num (int i)) text) (enumerate 0 choices))
     = choices"
  by (simp add: o_def case_prod_beta)

lemma options_id:
  "map option_id (map (\<lambda>(i, text). QuizOption (String_num (int i)) text) (enumerate 0 choices))
     = map (\<lambda>i. String_num (int i)) [0..<length choices]"
proof -
  have "map option_id (map (\<lambda>(i, text). QuizOption (String_num (int i)) text) (enumerate 0 choices))
          = map (\<lambda>x. String_num (int (fst x))) (enumerate 0 choices)"
    by (simp add: o_def case_prod_beta)
  also have "\<dots> = map (\<lambda>i. String_num (int i)) (map fst (enumerate 0 choices))"
    by (simp only: map_map o_def)
  also have "\<dots> = map (\<lambda>i. String_num (int i)) [0..<length choices]"
    by simp
  finally show ?thesis .
qed

text \<open>
  Claim C4.  A record whose discriminator (\<open>post_type\<close>, or \<open>card_type\<close> when \<open>post_type\<close> is
  absent) is \<open>quiz\<close> maps to a quiz card, with no console output.  The texts of its options
  are the nested \<open>quiz.choices\<close> in order (none when \<open>quiz\<close> or \<open>choices\<close> is absent), the id
  of the option at index \<open>i\<close> is \<open>String(i)\<close>, and \<open>correctOptionId\<close> is the stringified
  \<open>quiz.answer_index\<close>, \<open>"0"\<close> when it is absent.
\<close>

theorem mapALUToCard_quiz:
  assumes "coalesce_opt (alu_post_type alu) (alu_card_type alu) = Some ''quiz''"
  shows "\<exists>q opts e.
           mapALUToCard alu =
             ([], Some (QuizCardData (alu_alu_id alu) q opts
                     (case alu_quiz alu of
                        None \<Rightarrow> ''0''
                      | Some quiz \<Rightarrow>
                          (case quiz_answer_index quiz of None \<Rightarrow> ''0'' | Some k \<Rightarrow> String_num k))
                     e)) \<and>
           map option_text opts =
             (case alu_quiz alu of None \<Rightarrow> [] | Some quiz \<Rightarrow> coalesce (quiz_choices quiz) []) \<and>
           map option_id opts = map (\<lambda>i. String_num (int i)) [0..<length opts]"
  using assms
  by (simp add: mapALUToCard_def Let_def coalesce_def empty_quiz_def String_num_0 options_text
        options_id split: option.splits del: map_map)

text \<open>
  Claim C5.  A record with discriminator \<open>flashcard\<close> maps to a flashcard.  When the
  \<open>flashcard\<close> mapping has an entry, the key of its first entry is the front and its value
  the back, whatever entries follow and whatever the explicit fields hold.  When the
  mapping is absent (and also when it is not an object or has no entry) the explicit
  \<open>front\<close> and \<open>back\<close> fields are used, the empty string for an absent one.
\<close>

theorem mapALUToCard_flashcard:
  assumes "coalesce_opt (alu_post_type alu) (alu_card_type alu) = Some ''flashcard''"
  shows "(\<forall>k v more. alu_flashcard alu = Some (IsObject ((k, v) # more)) \<longrightarrow>
            mapALUToCard alu = ([], Some (FlashCardData (alu_alu_id alu) k v (alu_hint alu)))) \<and>
         (alu_flashcard alu \<in> {None, Some NotObject, Some (IsObject [])} \<longrightarrow>
            mapALUToCard alu =
              ([], Some (FlashCardData (alu_alu_id alu)
                           (case alu_front alu of None \<Rightarrow> [] | Some f \<Rightarrow> f)
                           (case alu_back alu of None \<Rightarrow> [] | Some b \<Rightarrow> b)
                           (alu_hint alu))))"
  using assms
  by (auto simp: mapALUToCard_def Let_def coalesce_def split: option.splits)

text \<open>
  Claim C6.  A record with discriminator \<open>image\<close> maps to an image card whose caption is
  the explicit \<open>caption\<close> when present, otherwise the fragments of \<open>micro_explanation\<close>
  joined when that is an array, otherwise the empty string.  The join puts exactly one
  space between consecutive fragments.
\<close>

theorem mapALUToCard_image_caption:
  assumes "coalesce_opt (alu_post_type alu) (alu_card_type alu) = Some ''image''"
  shows "(\<exists>url h.
           mapALUToCard alu =
             ([], Some (ImageCardData (alu_alu_id alu) url
                     (case alu_caption alu of
                        Some c \<Rightarrow> c
                      | None \<Rightarrow>
                          (case alu_micro_explanation alu of
                             Some (IsArray fragments) \<Rightarrow> join '' '' fragments
                           | _ \<Rightarrow> []))
                     h (alu_credit alu)))) \<and>
         join '' '' [] = [] \<and>
         (\<forall>x xs. join '' '' (x # xs) = x @ concat (map (\<lambda>y. '' '' @ y) xs))"
proof -
  have "\<forall>x xs. join '' '' (x # xs) = x @ concat (map (\<lambda>y. '' '' @ y) xs)"
    using join_Cons [of "'' ''"] by blast
  with assms show ?thesis
    by (auto simp: mapALUToCard_def Let_def coalesce_def
        split: option.splits any_array.splits)
qed

lemma mapALUToCard_Some_iff:
  "snd (mapALUToCard alu) \<noteq> None \<longleftrightarrow>
     coalesce_opt (alu_post_type alu) (alu_card_type alu)
       \<in> {Some ''image'', Some ''quiz'', Some ''flashcard''}"
  by (auto simp: mapALUToCard_def Let_def split_def)

lemma kept_cards:
  "map the (filter (\<lambda>c. c \<noteq> None) (map (\<lambda>alu. snd (mapALUToCard alu)) alus)) =
   map (\<lambda>alu. the (snd (mapALUToCard alu)))
     (filter (\<lambda>alu. coalesce_opt (alu_post_type alu) (alu_card_type alu)
                      \<in> {Some ''image'', Some ''quiz'', Some ''flashcard''}) alus)"
  by (simp add: filter_map o_def mapALUToCard_Some_iff del: insert_iff not_None_eq)

text \<open>
  Claim C7.  A record whose discriminator is none of \<open>image\<close>, \<open>quiz\<close>, \<open>flashcard\<close> (an
  absent discriminator included) yields one warning on the console and \<open>null\<close>.
  \<open>getCards\<close>, on a response that arrives in time and holds a list of records (bare or
  wrapped), returns the cards of exactly the records with a known discriminator, in
  order; each of those records does map to a card.
\<close>

theorem unknown_card_type_dropped:
  "(coalesce_opt (alu_post_type alu) (alu_card_type alu)
       \<notin> {Some ''image'', Some ''quiz'', Some ''flashcard''} \<longrightarrow>
     mapALUToCard alu =
       ([Warn_unknown_card_type
           (''[api] Unknown card_type: '' @
            (case coalesce_opt (alu_post_type alu) (alu_card_type alu) of
               None \<Rightarrow> ''undefined'' | Some p \<Rightarrow> p))], None)) \<and>
   (t < 15000 \<and> card_items data = Fulfilled alus \<longrightarrow>
     getCards (Settled t (Fulfilled (Json_body data))) =
       Settled t (Fulfilled
         (map (\<lambda>alu. the (snd (mapALUToCard alu)))
            (filter (\<lambda>alu. coalesce_opt (alu_post_type alu) (alu_card_type alu)
                             \<in> {Some ''image'', Some ''quiz'', Some ''flashcard''}) alus)))) \<and>
   (\<forall>alu \<in> set alus.
      coalesce_opt (alu_post_type alu) (alu_card_type alu)
        \<in> {Some ''image'', Some ''quiz'', Some ''flashcard''} \<longrightarrow>
      snd (mapALUToCard alu) \<noteq> None)"
proof (intro conjI impI ballI)
  assume "coalesce_opt (alu_post_type alu) (alu_card_type alu)
            \<notin> {Some ''image'', Some ''quiz'', Some ''flashcard''}"
  then show "mapALUToCard alu =
       ([Warn_unknown_card_type
           (''[api] Unknown card_type: '' @
            (case coalesce_opt (alu_post_type alu) (alu_card_type alu) of
               None \<Rightarrow> ''undefined'' | Some p \<Rightarrow> p))], None)"
    by (simp add: mapALUToCard_def Let_def coalesce_def)
next
  assume "t < 15000 \<and> card_items data = Fulfilled alus"
  then show "getCards (Settled t (Fulfilled (Json_body data))) =
       Settled t (Fulfilled
         (map (\<lambda>alu. the (snd (mapALUToCard alu)))
            (filter (\<lambda>alu. coalesce_opt (alu_post_type alu) (alu_card_type alu)
                             \<in> {Some ''image'', Some ''quiz'', Some ''flashcard''}) alus)))"
    by (simp add: getCards_def fetchWithTimeout_def promise_then_def promise_catch_def
          json_of_def kept_cards del: insert_iff not_None_eq)
next
  fix a :: BackendALU
  assume "coalesce_opt (alu_post_type a) (alu_card_type a)
            \<in> {Some ''image'', Some ''quiz'', Some ''flashcard''}"
  then show "snd (mapALUToCard a) \<noteq> None"
    by (simp only: mapALUToCard_Some_iff)
qed

subsection \<open>The normalizer on the scenarios\<close>

lemma String_num_1: "String_num 1 = ''1''"
  by code_simp

lemma String_num_1000: "String_num 1000 = ''1000''"
  by (simp add: String_num_def decimal.simps char_of_def bit_0)

lemma String_num_61000: "String_num 61000 = ''61000''"
  by (simp add: String_num_def decimal.simps char_of_def bit_0)

theorem mapALUToCard_quiz_witness:
  "coalesce_opt (alu_post_type scenario_quiz) (alu_card_type scenario_quiz) = Some ''quiz'' \<and>
   (\<exists>q opts e.
      mapALUToCard scenario_quiz = ([], Some (QuizCardData ''alu-1'' q opts ''1'' e)) \<and>
      map option_text opts = [''A'', ''B'', ''C''] \<and>
      map option_id opts = map (\<lambda>i. String_num (int i)) [0..<length opts])"
proof -
  have h: "coalesce_opt (alu_post_type scenario_quiz) (alu_card_type scenario_quiz) = Some ''quiz''"
    by (simp add: scenario_quiz_def blank_alu_def coalesce_opt_def)
  show ?thesis
    using mapALUToCard_quiz [OF h] h String_num_1
    by (simp add: scenario_quiz_def blank_alu_def coalesce_def)
qed

lemma quiz_scenario:
  "mapALUToCard scenario_quiz =
     ([], Some (QuizCardData ''alu-1'' ''Q?''
                  [QuizOption ''0'' ''A'', QuizOption ''1'' ''B'', QuizOption ''2'' ''C''] ''1'' ''E''))"
  by code_simp

theorem mapALUToCard_flashcard_witness:
  "coalesce_opt (alu_post_type scenario_flashcard) (alu_card_type scenario_flashcard)
     = Some ''flashcard'' \<and>
   mapALUToCard scenario_flashcard =
     ([], Some (FlashCardData ''alu-2'' ''What is X?'' ''X is Y'' None))"
proof -
  have h: "coalesce_opt (alu_post_type scenario_flashcard) (alu_card_type scenario_flashcard)
             = Some ''flashcard''"
    by (simp add: scenario_flashcard_def blank_alu_def coalesce_opt_def)
  have f: "alu_flashcard scenario_flashcard =
             Some (IsObject ((''What is X?'', ''X is Y'') # [(''Then Z?'', ''Z'')]))"
    by (simp add: scenario_flashcard_def)
  have "mapALUToCard scenario_flashcard =
          ([], Some (FlashCardData (alu_alu_id scenario_flashcard) ''What is X?'' ''X is Y''
                       (alu_hint scenario_flashcard)))"
    using mapALUToCard_flashcard [OF h] f by blast
  with h show ?thesis
    by (simp add: scenario_flashcard_def blank_alu_def)
qed

lemma flashcard_fields_scenario:
  "mapALUToCard scenario_flashcard_fields =
     ([], Some (FlashCardData ''alu-3'' ''explicit front'' [] None))"
  by code_simp

theorem mapALUToCard_image_caption_witness:
  "coalesce_opt (alu_post_type scenario_image) (alu_card_type scenario_image) = Some ''image'' \<and>
   (\<exists>url h.
      mapALUToCard scenario_image =
        ([], Some (ImageCardData ''alu-4'' url ''Creatine stores energy'' h None)))"
proof -
  have h: "coalesce_opt (alu_post_type scenario_image) (alu_card_type scenario_image) = Some ''image''"
    by (simp add: scenario_image_def blank_alu_def coalesce_opt_def)
  show ?thesis
    using mapALUToCard_image_caption [OF h] h
    by (simp add: scenario_image_def blank_alu_def)
qed

theorem unknown_card_type_dropped_witness:
  "mapALUToCard scenario_unknown =
     ([Warn_unknown_card_type ''[api] Unknown card_type: video''], None) \<and>
   getCards (Settled 120 (Fulfilled (Json_body
       (Feed_array [scenario_quiz, scenario_unknown, scenario_flashcard])))) =
     Settled 120 (Fulfilled
       [QuizCardData ''alu-1'' ''Q?''
          [QuizOption ''0'' ''A'', QuizOption ''1'' ''B'', QuizOption ''2'' ''C''] ''1'' ''E'',
        FlashCardData ''alu-2'' ''What is X?'' ''X is Y'' None])"
proof -
  note dropped = unknown_card_type_dropped
      [of scenario_unknown 120 "Feed_array [scenario_quiz, scenario_unknown, scenario_flashcard]"
          "[scenario_quiz, scenario_unknown, scenario_flashcard]"]
  have u: "coalesce_opt (alu_post_type scenario_unknown) (alu_card_type scenario_unknown)
             = Some ''video''"
    by (simp add: scenario_unknown_def blank_alu_def coalesce_opt_def)
  have ev: "map (\<lambda>alu. the (snd (mapALUToCard alu)))
              (filter (\<lambda>alu. coalesce_opt (alu_post_type alu) (alu_card_type alu)
                               \<in> {Some ''image'', Some ''quiz'', Some ''flashcard''})
                 [scenario_quiz, scenario_unknown, scenario_flashcard]) =
            [QuizCardData ''alu-1'' ''Q?''
               [QuizOption ''0'' ''A'', QuizOption ''1'' ''B'', QuizOption ''2'' ''C''] ''1'' ''E'',
             FlashCardData ''alu-2'' ''What is X?'' ''X is Y'' None]"
    by code_simp
  have "mapALUToCard scenario_unknown =
          ([Warn_unknown_card_type ''[api] Unknown card_type: video''], None)"
    using dropped [THEN conjunct1] by (simp add: u)
  moreover have "getCards (Settled 120 (Fulfilled (Json_body
       (Feed_array [scenario_quiz, scenario_unknown, scenario_flashcard])))) =
     Settled 120 (Fulfilled
       (map (\<lambda>alu. the (snd (mapALUToCard alu)))
              (filter (\<lambda>alu. coalesce_opt (alu_post_type alu) (alu_card_type alu)
                               \<in> {Some ''image'', Some ''quiz'', Some ''flashcard''})
                 [scenario_quiz, scenario_unknown, scenario_flashcard])))"
    by (rule dropped [THEN conjunct2, THEN conjunct1, THEN mp]) (simp add: card_items_def)
  ultimately show ?thesis
    by (simp only: ev)
qed


section \<open>Properties of the backend gateway\<close>

lemma fetchWithTimeout_settles:
  "\<exists>t r. t \<le> timeoutMs \<and> fetchWithTimeout fetch timeoutMs = Settled t r"
  by (cases fetch) (simp_all add: fetchWithTimeout_def)

lemma fetchWithTimeout_fails:
  assumes "fetch = Pending \<or> (\<exists>t r. fetch = Settled t r \<and> timeoutMs \<le> t) \<or>
           (\<exists>t e. fetch = Settled t (Rejected e))"
  shows "\<exists>t e. t \<le> timeoutMs \<and> fetchWithTimeout fetch timeoutMs = Settled t (Rejected e)"
proof (cases fetch)
  case (Settled t r)
  with assms show ?thesis
    by (cases "t < timeoutMs") (auto simp: fetchWithTimeout_def)
next
  case Pending
  then show ?thesis
    by (simp add: fetchWithTimeout_def)
qed

lemma promise_then_Settled:
  "promise_then (Settled t r) f =
     Settled t (case r of Fulfilled v \<Rightarrow> f v | Rejected e \<Rightarrow> Rejected e)"
  by (cases r) (simp_all add: promise_then_def)

lemma promise_catch_Settled:
  "promise_catch (Settled t r) h =
     Settled t (Fulfilled (case r of Fulfilled v \<Rightarrow> v | Rejected e \<Rightarrow> h e))"
  by (cases r) (simp_all add: promise_catch_def)

lemma getTopics_settles:
  "\<exists>t topics. t \<le> 15000 \<and> getTopics dateParse now fetch = Settled t (Fulfilled topics)"
proof -
  obtain t r where "t \<le> 15000" and "fetchWithTimeout fetch 15000 = Settled t r"
    using fetchWithTimeout_settles by blast
  then show ?thesis
    by (simp add: getTopics_def promise_then_Settled promise_catch_Settled)
qed

lemma getTopics_failure:
  assumes "fetch = Pending \<or> (\<exists>t r. fetch = Settled t r \<and> 15000 \<le> t) \<or>
           (\<exists>t e. fetch = Settled t (Rejected e))"
  shows "\<exists>t. t \<le> 15000 \<and> getTopics dateParse now fetch = Settled t (Fulfilled [])"
proof -
  obtain t e where "t \<le> 15000" and "fetchWithTimeout fetch 15000 = Settled t (Rejected e)"
    using fetchWithTimeout_fails [OF assms] by blast
  then show ?thesis
    by (simp add: getTopics_def promise_then_Settled promise_catch_Settled)
qed

lemma getCards_settles:
  "\<exists>t cards. t \<le> 15000 \<and> getCards fetch = Settled t (Fulfilled cards)"
proof -
  obtain t r where "t \<le> 15000" and "fetchWithTimeout fetch 15000 = Settled t r"
    using fetchWithTimeout_settles by blast
  then show ?thesis
    by (simp add: getCards_def promise_then_Settled promise_catch_Settled)
qed

lemma getCards_failure:
  assumes "fetch = Pending \<or> (\<exists>t r. fetch = Settled t r \<and> 15000 \<le> t) \<or>
           (\<exists>t e. fetch = Settled t (Rejected e))"
  shows "\<exists>t. t \<le> 15000 \<and> getCards fetch = Settled t (Fulfilled [])"
proof -
  obtain t e where "t \<le> 15000" and "fetchWithTimeout fetch 15000 = Settled t (Rejected e)"
    using fetchWithTimeout_fails [OF assms] by blast
  then show ?thesis
    by (simp add: getCards_def promise_then_Settled promise_catch_Settled)
qed

lemma write_settles:
  "\<exists>t v. t \<le> 15000 \<and>
     promise_catch (promise_then (fetchWithTimeout fetch 15000) json_of) (\<lambda>err. JObj []) =
       Settled t (Fulfilled v)"
proof -
  obtain t r where "t \<le> 15000" and "fetchWithTimeout fetch 15000 = Settled t r"
    using fetchWithTimeout_settles by blast
  then show ?thesis
    by (simp add: promise_then_Settled promise_catch_Settled)
qed

lemma write_failure:
  assumes "fetch = Pending \<or> (\<exists>t r. fetch = Settled t r \<and> 15000 \<le> t) \<or>
           (\<exists>t e. fetch = Settled t (Rejected e))"
  shows "\<exists>t. t \<le> 15000 \<and>
     promise_catch (promise_then (fetchWithTimeout fetch 15000) json_of) (\<lambda>err. JObj []) =
       Settled t (Fulfilled (JObj []))"
proof -
  obtain t e where "t \<le> 15000" and "fetchWithTimeout fetch 15000 = Settled t (Rejected e)"
    using fetchWithTimeout_fails [OF assms] by blast
  then show ?thesis
    by (simp add: promise_then_Settled promise_catch_Settled)
qed

lemma pollTopicStatus_settles:
  "\<exists>t s. t \<le> 15000 \<and> pollTopicStatus dateParse now nodeId fetch = Settled t (Fulfilled s)"
proof -
  obtain t topics where "t \<le> 15000"
      and "getTopics dateParse now fetch = Settled t (Fulfilled topics)"
    using getTopics_settles by blast
  then show ?thesis
    by (simp add: pollTopicStatus_def promise_then_Settled promise_catch_Settled)
qed



text \<open>
  Claim C3, as amended.  The four awaited operations \<open>getTopics\<close>, \<open>getCards\<close>,
  \<open>markLearnt\<close> and \<open>deleteTopic\<close>, and \<open>pollTopicStatus\<close>, settle within the 15 s timeout
  whatever the network does, and always fulfilled, never rejected; \<open>generateTopic\<close>
  returns a fulfilled promise at once.  When the request times out (it is still pending
  or settles at 15 s or later) or fails, the reads resolve to the empty array and the
  writes to the empty object.
\<close>

theorem gateway_degrades:
  "(\<exists>t topics. t \<le> 15000 \<and> getTopics dateParse now topicsFetch = Settled t (Fulfilled topics)) \<and>
   (\<exists>t cards. t \<le> 15000 \<and> getCards cardsFetch = Settled t (Fulfilled cards)) \<and>
   (\<exists>t v. t \<le> 15000 \<and> markLearnt writeFetch = Settled t (Fulfilled v)) \<and>
   (\<exists>t v. t \<le> 15000 \<and> deleteTopic writeFetch = Settled t (Fulfilled v)) \<and>
   (\<exists>t s. t \<le> 15000 \<and>
      pollTopicStatus dateParse now nodeId topicsFetch = Settled t (Fulfilled s)) \<and>
   (\<exists>v. returned (generateTopic now title_arg rawText newId writeFetch) =
           Settled 0 (Fulfilled v)) \<and>
   (topicsFetch = Pending \<or> (\<exists>t r. topicsFetch = Settled t r \<and> 15000 \<le> t) \<or>
      (\<exists>t e. topicsFetch = Settled t (Rejected e)) \<longrightarrow>
    (\<exists>t. t \<le> 15000 \<and> getTopics dateParse now topicsFetch = Settled t (Fulfilled []))) \<and>
   (cardsFetch = Pending \<or> (\<exists>t r. cardsFetch = Settled t r \<and> 15000 \<le> t) \<or>
      (\<exists>t e. cardsFetch = Settled t (Rejected e)) \<longrightarrow>
    (\<exists>t. t \<le> 15000 \<and> getCards cardsFetch = Settled t (Fulfilled []))) \<and>
   (writeFetch = Pending \<or> (\<exists>t r. writeFetch = Settled t r \<and> 15000 \<le> t) \<or>
      (\<exists>t e. writeFetch = Settled t (Rejected e)) \<longrightarrow>
    (\<exists>t. t \<le> 15000 \<and> markLearnt writeFetch = Settled t (Fulfilled (JObj []))) \<and>
    (\<exists>t. t \<le> 15000 \<and> deleteTopic writeFetch = Settled t (Fulfilled (JObj []))))"
proof (intro conjI impI)
  show "\<exists>t topics. t \<le> 15000 \<and> getTopics dateParse now topicsFetch = Settled t (Fulfilled topics)"
    by (rule getTopics_settles)
  show "\<exists>t cards. t \<le> 15000 \<and> getCards cardsFetch = Settled t (Fulfilled cards)"
    by (rule getCards_settles)
  show "\<exists>t v. t \<le> 15000 \<and> markLearnt writeFetch = Settled t (Fulfilled v)"
    unfolding markLearnt_def by (rule write_settles)
  show "\<exists>t v. t \<le> 15000 \<and> deleteTopic writeFetch = Settled t (Fulfilled v)"
    unfolding deleteTopic_def by (rule write_settles)
  show "\<exists>t s. t \<le> 15000 \<and>
      pollTopicStatus dateParse now nodeId topicsFetch = Settled t (Fulfilled s)"
    by (rule pollTopicStatus_settles)
  show "\<exists>v. returned (generateTopic now title_arg rawText newId writeFetch) =
           Settled 0 (Fulfilled v)"
    by (simp add: generateTopic_def Let_def)
next
  assume "topicsFetch = Pending \<or> (\<exists>t r. topicsFetch = Settled t r \<and> 15000 \<le> t) \<or>
      (\<exists>t e. topicsFetch = Settled t (Rejected e))"
  then show "\<exists>t. t \<le> 15000 \<and> getTopics dateParse now topicsFetch = Settled t (Fulfilled [])"
    by (rule getTopics_failure)
next
  assume "cardsFetch = Pending \<or> (\<exists>t r. cardsFetch = Settled t r \<and> 15000 \<le> t) \<or>
      (\<exists>t e. cardsFetch = Settled t (Rejected e))"
  then show "\<exists>t. t \<le> 15000 \<and> getCards cardsFetch = Settled t (Fulfilled [])"
    by (rule getCards_failure)
next
  assume w: "writeFetch = Pending \<or> (\<exists>t r. writeFetch = Settled t r \<and> 15000 \<le> t) \<or>
      (\<exists>t e. writeFetch = Settled t (Rejected e))"
  show "\<exists>t. t \<le> 15000 \<and> markLearnt writeFetch = Settled t (Fulfilled (JObj []))"
    unfolding markLearnt_def using w by (rule write_failure)
  show "\<exists>t. t \<le> 15000 \<and> deleteTopic writeFetch = Settled t (Fulfilled (JObj []))"
    unfolding deleteTopic_def using w by (rule write_failure)
qed

theorem gateway_degrades_witness:
  "(\<exists>t. t \<le> 15000 \<and> getTopics no_dates 0 Pending = Settled t (Fulfilled [])) \<and>
   (\<exists>t. t \<le> 15000 \<and> getCards (Settled 20000 (Fulfilled Bad_body)) = Settled t (Fulfilled [])) \<and>
   (\<exists>t. t \<le> 15000 \<and>
      markLearnt (Settled 300 (Rejected Fetch_failed)) = Settled t (Fulfilled (JObj []))) \<and>
   (\<exists>t. t \<le> 15000 \<and>
      deleteTopic (Settled 300 (Rejected Fetch_failed)) = Settled t (Fulfilled (JObj [])))"
proof -
  note degrades = gateway_degrades
    [where topicsFetch = Pending and cardsFetch = "Settled 20000 (Fulfilled Bad_body)"
       and writeFetch = "Settled 300 (Rejected Fetch_failed)" and dateParse = no_dates
       and now = 0 and nodeId = "''node-1000''" and title_arg = "''Creatine''"
       and rawText = None and newId = None]
  note rest = degrades [THEN conjunct2, THEN conjunct2, THEN conjunct2, THEN conjunct2,
      THEN conjunct2, THEN conjunct2]
  have "\<exists>t. t \<le> 15000 \<and> getTopics no_dates 0 Pending = Settled t (Fulfilled [])"
    by (rule rest [THEN conjunct1, THEN mp]) simp
  moreover
  have "\<exists>t. t \<le> 15000 \<and> getCards (Settled 20000 (Fulfilled Bad_body)) = Settled t (Fulfilled [])"
    by (rule rest [THEN conjunct2, THEN conjunct1, THEN mp]) simp
  moreover
  have "(\<exists>t. t \<le> 15000 \<and>
      markLearnt (Settled 300 (Rejected Fetch_failed)) = Settled t (Fulfilled (JObj []))) \<and>
   (\<exists>t. t \<le> 15000 \<and>
      deleteTopic (Settled 300 (Rejected Fetch_failed)) = Settled t (Fulfilled (JObj [])))"
    by (rule rest [THEN conjunct2, THEN conjunct2, THEN mp]) simp
  ultimately show ?thesis
    by (intro conjI) (elim conjE, assumption)+
qed

text \<open>
  The request of \<open>generateTopic\<close> is sent with plain \<open>fetch\<close>: when the network never
  answers, its promise chain stays pending for ever, where \<open>markLearnt\<close> gives up after
  15 s.
\<close>

theorem generateTopic_no_timeout_counterexample:
  "logged (generateTopic 1000 ''Creatine'' None None Pending) = Pending \<and>
   markLearnt Pending = Settled 15000 (Fulfilled (JObj []))"
  by (simp add: generateTopic_def Let_def promise_then_def promise_catch_def markLearnt_def
        fetchWithTimeout_def)






section \<open>Properties of the generation orchestrator\<close>

lemma mapped_topics_default:
  "\<forall>topic \<in> set (map (\<lambda>(index, item). mapBackendTopic dateParse now item index) xs).
     depth topic = Intermediate \<and> cards topic = []"
  by (auto simp: mapBackendTopic_def Let_def)

lemma getTopics_default:
  assumes "getTopics dateParse now fetch = Settled t (Fulfilled ts)"
  shows "\<forall>topic \<in> set ts. depth topic = Intermediate \<and> cards topic = []"
proof -
  obtain t' r where f: "fetchWithTimeout fetch 15000 = Settled t' r"
    using fetchWithTimeout_settles by blast
  have "ts = [] \<or> (\<exists>xs. ts = map (\<lambda>(index, item). mapBackendTopic dateParse now item index) xs)"
    using assms f
    by (auto simp: getTopics_def promise_then_Settled promise_catch_Settled json_of_def
        split: outcome.splits response.splits)
  then show ?thesis
    using mapped_topics_default by fastforce
qed

text \<open>
  Claim C9, as amended.  A tick of \<open>poll\<close> makes no test of whether its loop is still the
  one in charge of its topic.  Within the deadline, a tick that finds its topic not ready
  leaves the state as it is and schedules itself again, after 4 s during the first two
  minutes and after 8 s later.  Past the deadline, or when it finds its topic ready, the
  tick replaces the topic list by the list it fetched, clears \<open>generatingTopicId\<close>, and
  makes its topic the active one when the fetched list has it, for every state it runs
  in.
\<close>

theorem poll_tick_effect:
  "(now - loop_startTime loop \<le> MAX_POLL_MS \<and>
      status_of_found (loop_nodeId loop) polled = Generating \<longrightarrow>
    poll loop now polled refreshed st =
      (st, Some (if now - loop_startTime loop < 120000 then 4000 else 8000))) \<and>
   (now - loop_startTime loop > MAX_POLL_MS \<or>
      status_of_found (loop_nodeId loop) polled = Ready \<longrightarrow>
    poll loop now polled refreshed st =
      (st\<lparr>topics := refreshed,
          activeTopic :=
            (case find (\<lambda>t. topic_id t = loop_nodeId loop) refreshed of
               None \<Rightarrow> activeTopic st
             | Some found \<Rightarrow> Some found),
          generatingTopicId := None\<rparr>, None))"
  by (auto simp: poll_def Let_def publish_refreshed_def)

lemma first_loop:
  "started_loop first_attempt = \<lparr>loop_nodeId = ''node-1000'', loop_startTime = 1000\<rparr>"
  by (simp add: first_attempt_def handleGenerate_def Let_def String_num_1000)

lemma second_generating:
  "generatingTopicId (started_state second_attempt) = Some ''node-61000''"
  by (simp add: second_attempt_def handleRetryTopic_def Let_def String_num_61000)

lemma second_topics:
  "topics (started_state second_attempt) =
     [\<lparr>topic_id = ''node-61000'', title = ''Creatine'', emoji = BRAIN, color = ''#6C63FF'',
       status = Generating, depth = Beginner, cardCount = 0, cards = [], stuck = None\<rparr>]"
  by (simp add: second_attempt_def handleRetryTopic_def first_attempt_def handleGenerate_def
        initial_state_def Let_def String_num_61000 String_num_1000)

theorem poll_tick_effect_witness:
  "poll (started_loop first_attempt) 5000 [] [] (started_state second_attempt) =
     (started_state second_attempt, Some 4000) \<and>
   poll (started_loop first_attempt) 301001 [] backend_list (started_state second_attempt) =
     ((started_state second_attempt)
        \<lparr>topics := backend_list,
         activeTopic := activeTopic (started_state second_attempt),
         generatingTopicId := None\<rparr>, None)"
proof -
  have early: "5000 - loop_startTime (started_loop first_attempt) \<le> MAX_POLL_MS \<and>
      status_of_found (loop_nodeId (started_loop first_attempt)) [] = Generating"
    by (simp add: first_loop MAX_POLL_MS_def status_of_found_def)
  have late: "301001 - loop_startTime (started_loop first_attempt) > MAX_POLL_MS \<or>
      status_of_found (loop_nodeId (started_loop first_attempt)) [] = Ready"
    by (simp add: first_loop MAX_POLL_MS_def)
  have not_listed:
    "find (\<lambda>t. topic_id t = loop_nodeId (started_loop first_attempt)) backend_list = None"
    by (simp add: first_loop backend_list_def)
  have "poll (started_loop first_attempt) 5000 [] [] (started_state second_attempt) =
          (started_state second_attempt, Some 4000)"
    using poll_tick_effect [of 5000 "started_loop first_attempt" "[]" "[]"
        "started_state second_attempt", THEN conjunct1, THEN mp, OF early]
    by (simp add: first_loop)
  moreover
  have "poll (started_loop first_attempt) 301001 [] backend_list (started_state second_attempt) =
     ((started_state second_attempt)
        \<lparr>topics := backend_list,
         activeTopic := activeTopic (started_state second_attempt),
         generatingTopicId := None\<rparr>, None)"
    using poll_tick_effect [of 301001 "started_loop first_attempt" "[]" backend_list
        "started_state second_attempt", THEN conjunct2, THEN mp, OF late]
    by (simp add: not_listed)
  ultimately show ?thesis
    by simp
qed

text \<open>
  The session of the scenarios: the first loop polls \<open>node-1000\<close>, the retry at 61000
  starts a second attempt \<open>node-61000\<close>.  The tick of the first loop that runs at 301001,
  past its deadline, clears the \<open>generatingTopicId\<close> of the second attempt and replaces
  the topic list, placeholder included, by the list it fetched.
\<close>

theorem stale_tick_publishes_counterexample:
  "generatingTopicId (started_state second_attempt) = Some ''node-61000'' \<and>
   generatingTopicId
     (fst (poll (started_loop first_attempt) 301001 [] backend_list (started_state second_attempt)))
     = None \<and>
   topics
     (fst (poll (started_loop first_attempt) 301001 [] backend_list (started_state second_attempt)))
     \<noteq> topics (started_state second_attempt)"
  by (simp add: first_loop second_generating second_topics poll_def Let_def MAX_POLL_MS_def
        publish_refreshed_def backend_list_def)

text \<open>
  Claim C10.  Every topic that \<open>mapBackendTopic\<close> makes, and so every topic of a list that
  \<open>getTopics\<close> resolves to, has depth \<open>intermediate\<close> and no cards.  When a tick finds the
  submitted topic ready and publishes the list it fetched, every topic of the published
  list has depth \<open>intermediate\<close>, whatever depth was chosen at submission.
\<close>

theorem mapBackendTopic_default_depth:
  "depth (mapBackendTopic dateParse now item index) = Intermediate \<and>
   cards (mapBackendTopic dateParse now item index) = [] \<and>
   (\<forall>t ts. getTopics dateParse now fetch = Settled t (Fulfilled ts) \<longrightarrow>
      (\<forall>topic \<in> set ts. depth topic = Intermediate \<and> cards topic = [])) \<and>
   (\<forall>t refreshed.
      getTopics dateParse now fetch = Settled t (Fulfilled refreshed) \<and>
      status_of_found (loop_nodeId (started_loop (handleGenerate submitted title_arg depth_arg st)))
        polled = Ready \<longrightarrow>
      (\<forall>topic \<in> set (topics (fst (poll (started_loop (handleGenerate submitted title_arg depth_arg st))
                                      ticked polled refreshed
                                      (started_state (handleGenerate submitted title_arg depth_arg st))))).
         depth topic = Intermediate \<and> cards topic = []))"
proof (intro conjI allI impI)
  show "depth (mapBackendTopic dateParse now item index) = Intermediate"
    by (simp add: mapBackendTopic_def Let_def)
  show "cards (mapBackendTopic dateParse now item index) = []"
    by (simp add: mapBackendTopic_def Let_def)
next
  fix t ts
  assume "getTopics dateParse now fetch = Settled t (Fulfilled ts)"
  then show "\<forall>topic \<in> set ts. depth topic = Intermediate \<and> cards topic = []"
    by (rule getTopics_default)
next
  fix t refreshed
  let ?s = "handleGenerate submitted title_arg depth_arg st"
  assume a: "getTopics dateParse now fetch = Settled t (Fulfilled refreshed) \<and>
      status_of_found (loop_nodeId (started_loop ?s)) polled = Ready"
  then have "topics (fst (poll (started_loop ?s) ticked polled refreshed (started_state ?s)))
               = refreshed"
    by (simp add: poll_def Let_def publish_refreshed_def)
  moreover have "\<forall>topic \<in> set refreshed. depth topic = Intermediate \<and> cards topic = []"
    using a getTopics_default by blast
  ultimately show "\<forall>topic \<in> set (topics (fst (poll (started_loop ?s) ticked polled refreshed
                                      (started_state ?s)))).
         depth topic = Intermediate \<and> cards topic = []"
    by simp
qed

lemma completed_is_ready: "isReadyStatus (Some ''completed'')"
  by code_simp

theorem mapBackendTopic_default_depth_witness:
  "map depth (topics (started_state advanced_attempt)) = [Advanced] \<and>
   getTopics no_dates 4000 completed_feed =
     Settled 200 (Fulfilled [mapBackendTopic no_dates 4000 scenario_item 0]) \<and>
   map depth
     (topics (fst (poll (started_loop advanced_attempt) 4000
                     [mapBackendTopic no_dates 4000 scenario_item 0]
                     [mapBackendTopic no_dates 4000 scenario_item 0]
                     (started_state advanced_attempt)))) = [Intermediate]"
proof -
  let ?refreshed = "[mapBackendTopic no_dates 4000 scenario_item 0]"
  have placeholder: "map depth (topics (started_state advanced_attempt)) = [Advanced]"
    by (simp add: advanced_attempt_def handleGenerate_def initial_state_def Let_def)
  have fetched: "getTopics no_dates 4000 completed_feed = Settled 200 (Fulfilled ?refreshed)"
    by (simp add: completed_feed_def getTopics_def fetchWithTimeout_def promise_then_def
          promise_catch_def json_of_def topic_items_def)
  have node: "loop_nodeId (started_loop advanced_attempt) = ''node-1000''"
    by (simp add: advanced_attempt_def handleGenerate_def Let_def String_num_1000)
  have ready: "status_of_found (loop_nodeId (started_loop advanced_attempt)) ?refreshed = Ready"
    by (simp add: node status_of_found_def mapBackendTopic_def Let_def scenario_item_def
          completed_is_ready)
  have published:
    "topics (fst (poll (started_loop advanced_attempt) 4000 ?refreshed ?refreshed
                    (started_state advanced_attempt))) = ?refreshed"
    using ready by (simp add: poll_def Let_def publish_refreshed_def)
  have ready':
    "status_of_found
       (loop_nodeId (started_loop (handleGenerate 1000 ''Creatine'' Advanced initial_state)))
       ?refreshed = Ready"
    using ready by (simp only: advanced_attempt_def)
  have "\<forall>topic \<in> set (topics (fst (poll (started_loop advanced_attempt) 4000 ?refreshed ?refreshed
                                      (started_state advanced_attempt)))).
          depth topic = Intermediate \<and> cards topic = []"
    using mapBackendTopic_default_depth
      [where dateParse = no_dates and now = 4000 and fetch = completed_feed and submitted = 1000
         and title_arg = "''Creatine''" and depth_arg = Advanced and st = initial_state
         and polled = ?refreshed and ticked = 4000,
       THEN conjunct2, THEN conjunct2, THEN conjunct2, THEN spec, THEN spec, THEN mp,
       OF conjI, OF fetched ready']
    by (simp only: advanced_attempt_def)
  then have "map depth
     (topics (fst (poll (started_loop advanced_attempt) 4000 ?refreshed ?refreshed
                     (started_state advanced_attempt)))) = [Intermediate]"
    by (simp add: published)
  with placeholder fetched show ?thesis
    by simp
qed

end
